theory Spec2Isabelle
  imports Complex_Main "HOL-Library.Multiset"
begin

section \<open>Values shared by the roof generators and the scorer\<close>

text \<open>
  The sources are \<^verbatim>\<open>src/Nevim.py\<close> (roof generators, \<^verbatim>\<open>create_roof\<close>) and
  \<^verbatim>\<open>src/testovani_08_05.py\<close> (roof properties, solar access, solar potential).
  Python floats are modelled as the reals. The rounding of a float operation is written
  out where an integer is taken from its result (\<^verbatim>\<open>int(width / section_width)\<close> and the
  panel counts), since one unit in the last place can change that integer, and so is the
  overflow to an infinity, on which \<^verbatim>\<open>int\<close> raises \<^verbatim>\<open>OverflowError\<close>. Everywhere else the
  arithmetic is exact: a statement about a coordinate, an angle or a score is exact where
  the code is exact to rounding. Python exceptions are values of \<open>py_error\<close>.
\<close>

datatype py_error = ValueError | ZeroDivisionError | AssertionError | OverflowError

datatype Point3D = Point3D (px: real) (py: real) (pz: real)

datatype Vector3D = Vector3D (vx: real) (vy: real) (vz: real)

text \<open>A face is its ordered vertex loop. The library's constructor refuses fewer than
  three vertices with an assertion.\<close>

type_synonym Face3D = "Point3D list"

definition Face3D :: "Point3D list \<Rightarrow> py_error + Face3D" where
  "Face3D pts = (if length pts < 3 then Inl AssertionError else Inr pts)"

text \<open>\<^verbatim>\<open>math.radians\<close>.\<close>

definition radians :: "real \<Rightarrow> real" where
  "radians d = d * pi / 180"

subsection \<open>Float results\<close>

text \<open>
  A float has 53 significant bits. The result of a float operation is its exact result
  rounded to the nearest float, ties to the even one; \<open>u\<close> below is the distance of
  neighbouring floats around \<open>x\<close>. The largest float is \<open>2 ^ 1024 - 2 ^ 971\<close>, and an exact
  result of magnitude \<open>2 ^ 1024 - 2 ^ 970\<close> or more gives an infinity.
\<close>

definition round_even :: "real \<Rightarrow> int" where
  "round_even x =
     (let f = \<lfloor>x\<rfloor>; d = x - of_int f
      in if d < 1 / 2 then f else if 1 / 2 < d then f + 1 else if even f then f else f + 1)"

definition float_round :: "real \<Rightarrow> real" where
  "float_round x =
     (if x = 0 then 0
      else
        let e = max \<lfloor>log 2 \<bar>x\<bar>\<rfloor> (- 1022);
            u = 2 powr (of_int e - 52)
        in of_int (round_even (x / u)) * u)"

definition float_limit :: real where
  "float_limit = 2 ^ 1024 - 2 ^ 970"

definition overflows :: "real \<Rightarrow> bool" where
  "overflows x \<longleftrightarrow> float_limit \<le> \<bar>x\<bar>"

datatype float_result = Finite real | Infinite

text \<open>The float that an operation with the exact result \<open>x\<close> returns.\<close>

definition float_of :: "real \<Rightarrow> float_result" where
  "float_of x = (if overflows x then Infinite else Finite (float_round x))"

text \<open>\<^verbatim>\<open>a / b\<close> for a float result \<open>a\<close> and a finite float \<open>b\<close>: a zero divisor raises,
  an infinity divided by a finite number is an infinity.\<close>

definition float_div :: "float_result \<Rightarrow> real \<Rightarrow> py_error + float_result" where
  "float_div a b =
     (if b = 0 then Inl ZeroDivisionError
      else case a of Infinite \<Rightarrow> Inr Infinite | Finite v \<Rightarrow> Inr (float_of (v / b)))"

text \<open>\<^verbatim>\<open>int(x)\<close> on a float truncates toward zero, and raises \<^verbatim>\<open>OverflowError\<close> on an
  infinity.\<close>

definition int_trunc :: "float_result \<Rightarrow> py_error + int" where
  "int_trunc x =
     (case x of
        Infinite \<Rightarrow> Inl OverflowError
      | Finite v \<Rightarrow> Inr (if 0 \<le> v then \<lfloor>v\<rfloor> else \<lceil>v\<rceil>))"

text \<open>\<^verbatim>\<open>int(a / b)\<close>.\<close>

definition int_of_quotient :: "float_result \<Rightarrow> real \<Rightarrow> py_error + int" where
  "int_of_quotient a b =
     (case float_div a b of Inl e \<Rightarrow> Inl e | Inr q \<Rightarrow> int_trunc q)"

text \<open>\<^verbatim>\<open>int(n * c)\<close> for an integer \<open>n\<close> and a float \<open>c\<close>: the integer is converted to a
  float first, which raises \<^verbatim>\<open>OverflowError\<close> when it is too large for one.\<close>

definition int_of_product :: "int \<Rightarrow> real \<Rightarrow> py_error + int" where
  "int_of_product n c =
     (case float_of (real_of_int n) of
        Infinite \<Rightarrow> Inl OverflowError
      | Finite v \<Rightarrow> int_trunc (float_of (v * c)))"

text \<open>
  Every generator but the flat one starts with
  \<^verbatim>\<open>min_x = min(pt.x for pt in footprint)\<close>, \<^verbatim>\<open>max_x = ...\<close>, \<^verbatim>\<open>min_y\<close>, \<^verbatim>\<open>max_y\<close>.
  \<^verbatim>\<open>min\<close> and \<^verbatim>\<open>max\<close> scan from the first element and raise \<^verbatim>\<open>ValueError\<close> on an empty
  sequence.
\<close>

definition bounds :: "Point3D list \<Rightarrow> py_error + (real \<times> real \<times> real \<times> real)" where
  "bounds footprint =
     (case footprint of
        [] \<Rightarrow> Inl ValueError
      | p # ps \<Rightarrow>
          Inr (foldl min (px p) (map px ps), foldl max (px p) (map px ps),
               foldl min (py p) (map py ps), foldl max (py p) (map py ps)))"

text \<open>The rectangular footprint that \<^verbatim>\<open>create_building\<close> builds from an origin, a width
  and a depth.\<close>

definition footprint_pts :: "Point3D \<Rightarrow> real \<Rightarrow> real \<Rightarrow> Point3D list" where
  "footprint_pts origin width depth =
     [Point3D (px origin) (py origin) (pz origin),
      Point3D (px origin + width) (py origin) (pz origin),
      Point3D (px origin + width) (py origin + depth) (pz origin),
      Point3D (px origin) (py origin + depth) (pz origin)]"

section \<open>Roof generators\<close>

definition create_gable_roof ::
  "Point3D list \<Rightarrow> real \<Rightarrow> real \<Rightarrow> string \<Rightarrow> real \<Rightarrow> py_error + Face3D list" where
  "create_gable_roof footprint height roof_height axis slope_angle =
     (case bounds footprint of
        Inl e \<Rightarrow> Inl e
      | Inr (min_x, max_x, min_y, max_y) \<Rightarrow>
          let width = max_x - min_x;
              depth = max_y - min_y;
              span = (if axis = ''y'' then width / 2 else depth / 2);
              adjusted_height = span * tan (radians slope_angle);
              roof_height = max roof_height adjusted_height
          in if axis = ''y'' then
               let mid_x = (min_x + max_x) / 2;
                   ridge_pt1 = Point3D mid_x min_y (height + roof_height);
                   ridge_pt2 = Point3D mid_x max_y (height + roof_height);
                   roof_face1 = [Point3D min_x min_y height, Point3D min_x max_y height,
                                 ridge_pt2, ridge_pt1];
                   roof_face2 = [Point3D max_x min_y height, Point3D max_x max_y height,
                                 ridge_pt2, ridge_pt1];
                   gable1 = [Point3D min_x min_y height, Point3D max_x min_y height, ridge_pt1];
                   gable2 = [Point3D min_x max_y height, Point3D max_x max_y height, ridge_pt2]
               in Inr ([roof_face1, roof_face2] @ [gable1, gable2])
             else
               let mid_y = (min_y + max_y) / 2;
                   ridge_pt1 = Point3D min_x mid_y (height + roof_height);
                   ridge_pt2 = Point3D max_x mid_y (height + roof_height);
                   roof_face1 = [Point3D min_x min_y height, Point3D max_x min_y height,
                                 ridge_pt2, ridge_pt1];
                   roof_face2 = [Point3D min_x max_y height, Point3D max_x max_y height,
                                 ridge_pt2, ridge_pt1];
                   gable1 = [Point3D min_x min_y height, Point3D min_x max_y height, ridge_pt1];
                   gable2 = [Point3D max_x min_y height, Point3D max_x max_y height, ridge_pt2]
               in Inr ([roof_face1, roof_face2] @ [gable1, gable2]))"

definition create_flat_roof ::
  "Point3D list \<Rightarrow> real \<Rightarrow> real \<Rightarrow> real \<Rightarrow> py_error + Face3D" where
  "create_flat_roof footprint height roof_thickness slope =
     (if length footprint = 0 then Inl ZeroDivisionError
      else
        let center_x = sum_list (map px footprint) / real (length footprint);
            center_y = sum_list (map py footprint) / real (length footprint);
            roof_pts =
              map (\<lambda>pt.
                     let dist_from_center = sqrt ((px pt - center_x)\<^sup>2 + (py pt - center_y)\<^sup>2);
                         roof_z = height + roof_thickness - (dist_from_center * slope / 100)
                     in Point3D (px pt) (py pt) roof_z)
                  footprint
        in Face3D roof_pts)"

definition create_hip_roof ::
  "Point3D list \<Rightarrow> real \<Rightarrow> real \<Rightarrow> real \<Rightarrow> py_error + Face3D list" where
  "create_hip_roof footprint height roof_height slope_angle =
     (case bounds footprint of
        Inl e \<Rightarrow> Inl e
      | Inr (min_x, max_x, min_y, max_y) \<Rightarrow>
          let width = max_x - min_x;
              depth = max_y - min_y;
              span = min width depth / 2;
              adjusted_height = span * tan (radians slope_angle);
              roof_height = max roof_height adjusted_height;
              center_x = (min_x + max_x) / 2;
              center_y = (min_y + max_y) / 2;
              peak_pt = Point3D center_x center_y (height + roof_height);
              corner_pts = [Point3D min_x min_y height, Point3D max_x min_y height,
                            Point3D max_x max_y height, Point3D min_x max_y height]
          in Inr (map (\<lambda>i. [corner_pts ! i, corner_pts ! ((i + 1) mod 4), peak_pt]) [0..<4]))"

text \<open>\<^verbatim>\<open>create_pyramid_roof(footprint, height, roof_height=4)\<close> calls
  \<^verbatim>\<open>create_hip_roof(footprint, height, roof_height)\<close>: the slope angle is left at the
  default of \<^verbatim>\<open>create_hip_roof\<close>, 25.\<close>

definition create_pyramid_roof ::
  "Point3D list \<Rightarrow> real \<Rightarrow> real \<Rightarrow> py_error + Face3D list" where
  "create_pyramid_roof footprint height roof_height =
     create_hip_roof footprint height roof_height 25"

text \<open>The slope angle of the shed roof defaults to \<^verbatim>\<open>None\<close>.\<close>

definition create_shed_roof ::
  "Point3D list \<Rightarrow> real \<Rightarrow> real \<Rightarrow> string \<Rightarrow> real option \<Rightarrow> py_error + Face3D" where
  "create_shed_roof footprint height roof_height slope_direction slope_angle =
     (case bounds footprint of
        Inl e \<Rightarrow> Inl e
      | Inr (min_x, max_x, min_y, max_y) \<Rightarrow>
          let roof_height =
                (case slope_angle of
                   None \<Rightarrow> roof_height
                 | Some a \<Rightarrow>
                     let span = (if slope_direction \<in> set [''north'', ''south'']
                                 then max_y - min_y else max_x - min_x)
                     in span * tan (radians a))
          in if slope_direction = ''north'' then
               Inr [Point3D min_x min_y height, Point3D max_x min_y height,
                    Point3D max_x max_y (height + roof_height),
                    Point3D min_x max_y (height + roof_height)]
             else if slope_direction = ''south'' then
               Inr [Point3D min_x min_y (height + roof_height),
                    Point3D max_x min_y (height + roof_height),
                    Point3D max_x max_y height, Point3D min_x max_y height]
             else if slope_direction = ''east'' then
               Inr [Point3D min_x min_y height, Point3D max_x min_y (height + roof_height),
                    Point3D max_x max_y (height + roof_height), Point3D min_x max_y height]
             else
               Inr [Point3D min_x min_y (height + roof_height), Point3D max_x min_y height,
                    Point3D max_x max_y height, Point3D min_x max_y (height + roof_height)])"

text \<open>The two slope parameters of the mansard roof are accepted and never read.\<close>

definition create_mansard_roof ::
  "Point3D list \<Rightarrow> real \<Rightarrow> real \<Rightarrow> real \<Rightarrow> real \<Rightarrow> py_error + Face3D list" where
  "create_mansard_roof footprint height roof_height lower_slope upper_slope =
     (case bounds footprint of
        Inl e \<Rightarrow> Inl e
      | Inr (min_x, max_x, min_y, max_y) \<Rightarrow>
          let width = max_x - min_x;
              depth = max_y - min_y;
              lower_height = roof_height * (7 / 10);
              inset_x = width * (25 / 100);
              inset_y = depth * (25 / 100);
              corner_pts = [Point3D min_x min_y height, Point3D max_x min_y height,
                            Point3D max_x max_y height, Point3D min_x max_y height];
              mid_pts = [Point3D (min_x + inset_x) (min_y + inset_y) (height + lower_height),
                         Point3D (max_x - inset_x) (min_y + inset_y) (height + lower_height),
                         Point3D (max_x - inset_x) (max_y - inset_y) (height + lower_height),
                         Point3D (min_x + inset_x) (max_y - inset_y) (height + lower_height)]
          in Inr (map (\<lambda>i. [corner_pts ! i, corner_pts ! ((i + 1) mod 4),
                               mid_pts ! ((i + 1) mod 4), mid_pts ! i]) [0..<4]
                  @ [mid_pts]))"

definition create_butterfly_roof ::
  "Point3D list \<Rightarrow> real \<Rightarrow> real \<Rightarrow> real \<Rightarrow> py_error + Face3D list" where
  "create_butterfly_roof footprint height roof_height valley_depth =
     (case bounds footprint of
        Inl e \<Rightarrow> Inl e
      | Inr (min_x, max_x, min_y, max_y) \<Rightarrow>
          let center_x = (min_x + max_x) / 2;
              valley_pt1 = Point3D center_x min_y (height + roof_height - valley_depth);
              valley_pt2 = Point3D center_x max_y (height + roof_height - valley_depth);
              ridge_pt1 = Point3D min_x min_y (height + roof_height);
              ridge_pt2 = Point3D max_x min_y (height + roof_height);
              ridge_pt3 = Point3D max_x max_y (height + roof_height);
              ridge_pt4 = Point3D min_x max_y (height + roof_height)
          in Inr [[ridge_pt1, valley_pt1, valley_pt2, ridge_pt4],
                  [valley_pt1, ridge_pt2, ridge_pt3, valley_pt2]])"

text \<open>One section of the sawtooth roof, for the loop index \<open>i\<close>.\<close>

definition sawtooth_section ::
  "real \<Rightarrow> real \<Rightarrow> real \<Rightarrow> real \<Rightarrow> real \<Rightarrow> real \<Rightarrow> nat \<Rightarrow> Face3D" where
  "sawtooth_section min_x min_y max_y height roof_height section_width i =
     (let x1 = min_x + real i * section_width;
          x2 = min_x + (real i + 1) * section_width
      in if i mod 2 = 0 then
           [Point3D x1 min_y height, Point3D x2 min_y height,
            Point3D x2 max_y height, Point3D x1 max_y (height + roof_height)]
         else
           [Point3D x1 min_y (height + roof_height), Point3D x2 min_y height,
            Point3D x2 max_y height, Point3D x1 max_y (height + roof_height)])"

text \<open>\<^verbatim>\<open>num_sections = max(2, int(width / section_width))\<close> is computed before anything
  is built: a zero \<^verbatim>\<open>section_width\<close> raises \<^verbatim>\<open>ZeroDivisionError\<close>, a quotient too large
  for a float raises \<^verbatim>\<open>OverflowError\<close>. Where the section width is recomputed the width
  is finite, since an infinite one has raised before.\<close>

definition num_sections_of :: "float_result \<Rightarrow> real \<Rightarrow> py_error + int" where
  "num_sections_of width section_width =
     (case int_of_quotient width section_width of
        Inl e \<Rightarrow> Inl e
      | Inr k \<Rightarrow> Inr (max 2 k))"

definition create_sawtooth_roof ::
  "Point3D list \<Rightarrow> real \<Rightarrow> real \<Rightarrow> real \<Rightarrow> real \<Rightarrow> py_error + Face3D list" where
  "create_sawtooth_roof footprint height section_width roof_height slope_angle =
     (case bounds footprint of
        Inl e \<Rightarrow> Inl e
      | Inr (min_x, max_x, min_y, max_y) \<Rightarrow>
          let width = float_of (max_x - min_x)
          in (case num_sections_of width section_width of
                Inl e \<Rightarrow> Inl e
              | Inr num_sections \<Rightarrow>
                  (case width of
                     Infinite \<Rightarrow> Inl OverflowError
                   | Finite width \<Rightarrow>
                       let section_width = width / real_of_int num_sections
                       in Inr (map (sawtooth_section min_x min_y max_y height roof_height
                                      section_width)
                                 [0..<nat num_sections]))))"

definition create_curved_roof ::
  "Point3D list \<Rightarrow> real \<Rightarrow> real \<Rightarrow> int \<Rightarrow> py_error + Face3D list" where
  "create_curved_roof footprint height roof_height num_segments =
     (case bounds footprint of
        Inl e \<Rightarrow> Inl e
      | Inr (min_x, max_x, min_y, max_y) \<Rightarrow>
          let center_x = (min_x + max_x) / 2;
              width = max_x - min_x
          in Inr (map (\<lambda>i.
                         let angle1 = pi * real i / real_of_int num_segments;
                             angle2 = pi * (real i + 1) / real_of_int num_segments;
                             height1 = height + roof_height * sin angle1;
                             height2 = height + roof_height * sin angle2;
                             x1 = center_x - (width / 2) * cos angle1;
                             x2 = center_x - (width / 2) * cos angle2
                         in [Point3D x1 min_y height1, Point3D x2 min_y height2,
                             Point3D x2 max_y height2, Point3D x1 max_y height1])
                    [0..<nat num_segments]))"

subsection \<open>The solar roof and its panel layout\<close>

definition panel_width :: real where "panel_width = 17 / 10"
definition panel_height :: real where "panel_height = 1"
definition panel_thickness :: real where "panel_thickness = 5 / 100"
definition panel_spacing :: real where "panel_spacing = 1 / 10"

text \<open>\<^verbatim>\<open>panel_pts[k] = Point3D(panel_pts[k].x, panel_pts[k].y, panel_pts[k].z + d)\<close>.\<close>

definition lift_vertex :: "nat \<Rightarrow> real \<Rightarrow> Point3D list \<Rightarrow> Point3D list" where
  "lift_vertex k d pts = pts[k := Point3D (px (pts ! k)) (py (pts ! k)) (pz (pts ! k) + d)]"

text \<open>The body of the two nested loops for the slot \<open>(i, j)\<close>: the panel rectangle, then
  the simplified tilt that raises one edge.\<close>

definition solar_panel :: "real \<Rightarrow> real \<Rightarrow> real \<Rightarrow> string \<Rightarrow> real \<Rightarrow> nat \<Rightarrow> nat \<Rightarrow> Face3D" where
  "solar_panel min_x min_y height orientation angle_rad i j =
     (let panel_origin_x = min_x + real i * (panel_width + panel_spacing);
          panel_origin_y = min_y + real j * (panel_height + panel_spacing);
          panel_pts =
            [Point3D panel_origin_x panel_origin_y (height + panel_thickness),
             Point3D (panel_origin_x + panel_width) panel_origin_y (height + panel_thickness),
             Point3D (panel_origin_x + panel_width) (panel_origin_y + panel_height)
               (height + panel_thickness),
             Point3D panel_origin_x (panel_origin_y + panel_height) (height + panel_thickness)]
      in if orientation = ''south'' then
           lift_vertex 3 (panel_height * sin angle_rad)
             (lift_vertex 2 (panel_height * sin angle_rad) panel_pts)
         else if orientation = ''north'' then
           lift_vertex 1 (panel_height * sin angle_rad)
             (lift_vertex 0 (panel_height * sin angle_rad) panel_pts)
         else if orientation = ''east'' then
           lift_vertex 2 (panel_width * sin angle_rad)
             (lift_vertex 1 (panel_width * sin angle_rad) panel_pts)
         else if orientation = ''west'' then
           lift_vertex 3 (panel_width * sin angle_rad)
             (lift_vertex 0 (panel_width * sin angle_rad) panel_pts)
         else panel_pts)"

text \<open>The nested loops \<^verbatim>\<open>for i in range(max_panels_x): for j in range(max_panels_y)\<close>
  with the counter \<^verbatim>\<open>panels_placed\<close>: the state is the counter and the faces so far.\<close>

definition place_panels ::
  "real \<Rightarrow> real \<Rightarrow> real \<Rightarrow> string \<Rightarrow> real \<Rightarrow> int \<Rightarrow> int \<Rightarrow> int \<Rightarrow> nat \<times> Face3D list" where
  "place_panels min_x min_y height orientation angle_rad max_panels_x max_panels_y num_panels =
     foldl (\<lambda>(panels_placed, panel_faces) (i, j).
              if int panels_placed < num_panels
              then (panels_placed + 1,
                    panel_faces @ [solar_panel min_x min_y height orientation angle_rad i j])
              else (panels_placed, panel_faces))
           (0, [])
           (List.product [0..<nat max_panels_x] [0..<nat max_panels_y])"

definition create_solar_roof ::
  "Point3D list \<Rightarrow> real \<Rightarrow> real \<Rightarrow> string \<Rightarrow> real \<Rightarrow> py_error + (Face3D list \<times> Face3D list)" where
  "create_solar_roof footprint height tilt_angle orientation coverage =
     (case bounds footprint of
        Inl e \<Rightarrow> Inl e
      | Inr (min_x, max_x, min_y, max_y) \<Rightarrow>
          let width = float_of (max_x - min_x);
              depth = float_of (max_y - min_y)
          in (case create_flat_roof footprint height (3 / 10) 0 of
                Inl e \<Rightarrow> Inl e
              | Inr flat_roof \<Rightarrow>
                  (case int_of_quotient width panel_width of
                     Inl e \<Rightarrow> Inl e
                   | Inr max_panels_x \<Rightarrow>
                       (case int_of_quotient depth panel_height of
                          Inl e \<Rightarrow> Inl e
                        | Inr max_panels_y \<Rightarrow>
                            let total_max_panels = max_panels_x * max_panels_y
                            in (case int_of_product total_max_panels coverage of
                                  Inl e \<Rightarrow> Inl e
                                | Inr num_panels \<Rightarrow>
                                    let angle_rad = radians tilt_angle
                                    in Inr ([flat_roof],
                                            snd (place_panels min_x min_y height orientation
                                                   angle_rad max_panels_x max_panels_y
                                                   num_panels)))))))"

subsection \<open>Dispatch on the roof type\<close>

text \<open>
  \<^verbatim>\<open>roof_params\<close> is a dictionary read only through \<^verbatim>\<open>roof_params.get(key, default)\<close>.
  It is a record of optional fields, one per key that \<^verbatim>\<open>create_roof\<close> reads; \<open>None\<close> is
  an absent key.
\<close>

record roof_params =
  p_roof_thickness :: "real option"
  p_slope :: "real option"
  p_roof_height :: "real option"
  p_axis :: "string option"
  p_slope_angle :: "real option"
  p_slope_direction :: "string option"
  p_lower_slope :: "real option"
  p_upper_slope :: "real option"
  p_valley_depth :: "real option"
  p_section_width :: "real option"
  p_num_segments :: "int option"
  p_tilt_angle :: "real option"
  p_orientation :: "string option"
  p_coverage :: "real option"

definition no_params :: roof_params where
  "no_params =
     \<lparr>p_roof_thickness = None, p_slope = None, p_roof_height = None, p_axis = None,
      p_slope_angle = None, p_slope_direction = None, p_lower_slope = None,
      p_upper_slope = None, p_valley_depth = None, p_section_width = None,
      p_num_segments = None, p_tilt_angle = None, p_orientation = None, p_coverage = None\<rparr>"

text \<open>\<^verbatim>\<open>d.get(key, default)\<close>.\<close>

definition get_or :: "'a option \<Rightarrow> 'a \<Rightarrow> 'a" where
  "get_or v d = (case v of None \<Rightarrow> d | Some x \<Rightarrow> x)"

text \<open>A generator that returns one face, wrapped in a list by the caller.\<close>

definition single :: "py_error + Face3D \<Rightarrow> py_error + Face3D list" where
  "single r = (case r of Inl e \<Rightarrow> Inl e | Inr f \<Rightarrow> Inr [f])"

text \<open>A generator without panels: \<^verbatim>\<open>solar_panels\<close> stays the empty list.\<close>

definition no_panels :: "py_error + Face3D list \<Rightarrow> py_error + (Face3D list \<times> Face3D list)" where
  "no_panels r = (case r of Inl e \<Rightarrow> Inl e | Inr fs \<Rightarrow> Inr (fs, []))"

definition create_roof ::
  "Point3D list \<Rightarrow> real \<Rightarrow> string \<Rightarrow> roof_params \<Rightarrow> py_error + (Face3D list \<times> Face3D list)" where
  "create_roof footprint height roof_type roof_params =
     (if roof_type = ''flat'' then
        no_panels (single (create_flat_roof footprint height
          (get_or (p_roof_thickness roof_params) (3 / 10))
          (get_or (p_slope roof_params) 0)))
      else if roof_type = ''gable'' then
        no_panels (create_gable_roof footprint height
          (get_or (p_roof_height roof_params) 3)
          (get_or (p_axis roof_params) ''y'')
          (get_or (p_slope_angle roof_params) 30))
      else if roof_type = ''hip'' then
        no_panels (create_hip_roof footprint height
          (get_or (p_roof_height roof_params) (5 / 2))
          (get_or (p_slope_angle roof_params) 25))
      else if roof_type = ''pyramid'' then
        no_panels (create_pyramid_roof footprint height
          (get_or (p_roof_height roof_params) 4))
      else if roof_type = ''shed'' then
        no_panels (single (create_shed_roof footprint height
          (get_or (p_roof_height roof_params) 2)
          (get_or (p_slope_direction roof_params) ''north'')
          (p_slope_angle roof_params)))
      else if roof_type = ''mansard'' then
        no_panels (create_mansard_roof footprint height
          (get_or (p_roof_height roof_params) 3)
          (get_or (p_lower_slope roof_params) 70)
          (get_or (p_upper_slope roof_params) 30))
      else if roof_type = ''butterfly'' then
        no_panels (create_butterfly_roof footprint height
          (get_or (p_roof_height roof_params) 2)
          (get_or (p_valley_depth roof_params) 1))
      else if roof_type = ''sawtooth'' then
        no_panels (create_sawtooth_roof footprint height
          (get_or (p_section_width roof_params) 4)
          (get_or (p_roof_height roof_params) 2)
          (get_or (p_slope_angle roof_params) 30))
      else if roof_type = ''curved'' then
        no_panels (create_curved_roof footprint height
          (get_or (p_roof_height roof_params) 3)
          (get_or (p_num_segments roof_params) 8))
      else if roof_type = ''solar'' then
        create_solar_roof footprint height
          (get_or (p_tilt_angle roof_params) 15)
          (get_or (p_orientation roof_params) ''south'')
          (get_or (p_coverage roof_params) (8 / 10))
      else
        no_panels (single (create_flat_roof footprint height (3 / 10) 0)))"

section \<open>Solar suitability of roof faces\<close>

subsection \<open>Vector operations of the geometry library\<close>

text \<open>
  \<^verbatim>\<open>Vector3D.dot\<close>, \<^verbatim>\<open>magnitude\<close>, \<^verbatim>\<open>reverse\<close>, \<^verbatim>\<open>normalize\<close> and \<^verbatim>\<open>angle\<close> belong to the
  geometry library the scripts import. \<^verbatim>\<open>angle\<close> is
  \<^verbatim>\<open>math.acos(self.dot(other) / (self.magnitude * other.magnitude))\<close> and raises
  \<^verbatim>\<open>ZeroDivisionError\<close> on a zero vector; \<^verbatim>\<open>normalize\<close> divides each component by the
  magnitude and returns a zero vector as it is.
\<close>

definition dot :: "Vector3D \<Rightarrow> Vector3D \<Rightarrow> real" where
  "dot a b = vx a * vx b + vy a * vy b + vz a * vz b"

definition magnitude :: "Vector3D \<Rightarrow> real" where
  "magnitude v = sqrt ((vx v)\<^sup>2 + (vy v)\<^sup>2 + (vz v)\<^sup>2)"

definition reverse :: "Vector3D \<Rightarrow> Vector3D" where
  "reverse v = Vector3D (- vx v) (- vy v) (- vz v)"

definition normalize_vec :: "Vector3D \<Rightarrow> Vector3D" where
  "normalize_vec v =
     (let d = magnitude v
      in if d = 0 then v
         else Vector3D (vx v / d) (vy v / d) (vz v / d))"

definition angle :: "Vector3D \<Rightarrow> Vector3D \<Rightarrow> py_error + real" where
  "angle a b =
     (if magnitude a * magnitude b = 0 then Inl ZeroDivisionError
      else Inr (arccos (dot a b / (magnitude a * magnitude b))))"

subsection \<open>Loops that stop at the first exception\<close>

fun map_err :: "('a \<Rightarrow> py_error + 'b) \<Rightarrow> 'a list \<Rightarrow> py_error + 'b list" where
  "map_err f [] = Inr []"
| "map_err f (x # xs) =
     (case f x of
        Inl e \<Rightarrow> Inl e
      | Inr y \<Rightarrow> (case map_err f xs of Inl e \<Rightarrow> Inl e | Inr ys \<Rightarrow> Inr (y # ys)))"

fun fold_err :: "('s \<Rightarrow> 'a \<Rightarrow> py_error + 's) \<Rightarrow> 's \<Rightarrow> 'a list \<Rightarrow> py_error + 's" where
  "fold_err f s [] = Inr s"
| "fold_err f s (x # xs) =
     (case f s x of Inl e \<Rightarrow> Inl e | Inr s' \<Rightarrow> fold_err f s' xs)"

subsection \<open>Roof properties\<close>

text \<open>
  What \<^verbatim>\<open>calculate_roof_properties\<close> reads of a roof shade: its identifier, the normal,
  centroid and area of its geometry (computed by the library) and the roof type of its user
  data, if any.
\<close>

record roof_surface =
  roof_identifier :: string
  geometry_normal :: Vector3D
  geometry_centroid :: Point3D
  geometry_area :: real
  user_roof_type :: "string option"

text \<open>The dictionary built for each roof; the key \<^verbatim>\<open>'roof'\<close>, a reference back to the
  shade, is left out.\<close>

record roof_prop =
  r_id :: string
  r_centroid :: Point3D
  r_normal :: Vector3D
  r_area :: real
  r_tilt :: real
  r_azimuth :: real
  r_type :: string

text \<open>
  The azimuth of a normal. Angles are real numbers here. For a normal with a negative
  \<^verbatim>\<open>x\<close> the real result lies strictly below 360; in floating point the angle to the north
  can round to 0 and the result is then 360.0, so the properties below bound the azimuth by
  360 inclusive.
\<close>

definition roof_azimuth :: "Vector3D \<Rightarrow> py_error + real" where
  "roof_azimuth normal =
     (let north_vector = Vector3D 0 1 0;
          normal_horiz = Vector3D (vx normal) (vy normal) 0
      in if magnitude normal_horiz < 1 / 1000 then Inr 0
         else
           (case angle (normalize_vec normal_horiz) north_vector of
              Inl e \<Rightarrow> Inl e
            | Inr azimuth_rad \<Rightarrow>
                let azimuth = azimuth_rad * 180 / pi
                in Inr (if vx normal < 0 then 360 - azimuth else azimuth)))"

definition roof_properties :: "roof_surface \<Rightarrow> py_error + roof_prop" where
  "roof_properties roof =
     (let normal = geometry_normal roof;
          up_vector = Vector3D 0 0 1
      in case angle normal up_vector of
           Inl e \<Rightarrow> Inl e
         | Inr tilt_rad \<Rightarrow>
             let tilt_deg = tilt_rad * 180 / pi
             in (case roof_azimuth normal of
                   Inl e \<Rightarrow> Inl e
                 | Inr azimuth \<Rightarrow>
                     Inr \<lparr>r_id = roof_identifier roof,
                          r_centroid = geometry_centroid roof,
                          r_normal = normal,
                          r_area = geometry_area roof,
                          r_tilt = 90 - tilt_deg,
                          r_azimuth = azimuth,
                          r_type = get_or (user_roof_type roof) ''unknown''\<rparr>))"

definition calculate_roof_properties :: "roof_surface list \<Rightarrow> py_error + roof_prop list" where
  "calculate_roof_properties roof_surfaces = map_err roof_properties roof_surfaces"

subsection \<open>Solar access\<close>

text \<open>
  The sun position of one analysis hour, as the sun-path provider returns it: the altitude
  in degrees and the direction of the rays. \<^verbatim>\<open>analyze_solar_access\<close> asks the provider
  for every hour of the analysis period; the model takes the list of these positions, one
  per hour, so that \<^verbatim>\<open>len(hoys)\<close> is its length.
\<close>

record sun =
  altitude :: real
  sun_vector :: Vector3D

definition altitude_in_radians :: "sun \<Rightarrow> real" where
  "altitude_in_radians s = radians (altitude s)"

record roof_access = roof_prop +
  sun_hours :: nat
  sun_access_percent :: real
  weighted_hours :: real

definition with_access :: "roof_prop \<Rightarrow> nat \<Rightarrow> real \<Rightarrow> real \<Rightarrow> roof_access" where
  "with_access roof hours percent weighted =
     \<lparr>r_id = r_id roof, r_centroid = r_centroid roof, r_normal = r_normal roof,
      r_area = r_area roof, r_tilt = r_tilt roof, r_azimuth = r_azimuth roof,
      r_type = r_type roof,
      sun_hours = hours, sun_access_percent = percent, weighted_hours = weighted\<rparr>"

text \<open>The body of the loop over the hours, on the pair
  \<^verbatim>\<open>(solar_access_hours, weighted_access_hours)\<close>.\<close>

definition access_step :: "Vector3D \<Rightarrow> nat \<times> real \<Rightarrow> sun \<Rightarrow> py_error + (nat \<times> real)" where
  "access_step normal acc s =
     (case acc of (solar_access_hours, weighted_access_hours) \<Rightarrow>
        if altitude s > 0 then
          (case angle normal (reverse (sun_vector s)) of
             Inl e \<Rightarrow> Inl e
           | Inr a \<Rightarrow>
               if a < pi / 2 then
                 let radiation_factor = cos a * sin (altitude_in_radians s)
                 in Inr (solar_access_hours + 1, weighted_access_hours + radiation_factor)
               else Inr acc)
        else Inr acc)"

definition roof_access_of :: "sun list \<Rightarrow> roof_prop \<Rightarrow> py_error + roof_access" where
  "roof_access_of suns roof =
     (case fold_err (access_step (r_normal roof)) (0, 0) suns of
        Inl e \<Rightarrow> Inl e
      | Inr (solar_access_hours, weighted_access_hours) \<Rightarrow>
          if length suns = 0 then Inl ZeroDivisionError
          else
            let sun_access_percent = (real solar_access_hours / real (length suns)) * 100
            in Inr (with_access roof solar_access_hours sun_access_percent
                      weighted_access_hours))"

definition analyze_solar_access :: "roof_prop list \<Rightarrow> sun list \<Rightarrow> py_error + roof_access list" where
  "analyze_solar_access roof_props suns = map_err (roof_access_of suns) roof_props"

subsection \<open>Solar potential\<close>

record roof_result = roof_access +
  suitability :: real
  annual_insolation :: real
  energy_production :: real

text \<open>The body of the scoring loop for one roof, given the minimum and the range of the
  weighted hours of the batch.\<close>

definition solar_potential_of :: "real \<Rightarrow> real \<Rightarrow> roof_access \<Rightarrow> roof_result" where
  "solar_potential_of min_weighted_hours range_weighted roof =
     (let tilt_factor = 1 - min \<bar>r_tilt roof - 35\<bar> 90 / 90;
          azimuth_factor = 1 - min \<bar>r_azimuth roof - 180\<bar> 180 / 180;
          weighted_factor = (weighted_hours roof - min_weighted_hours) / range_weighted;
          suitability = 25 / 100 * tilt_factor + 25 / 100 * azimuth_factor
                        + 5 / 10 * weighted_factor;
          annual_insolation = 1050 * suitability;
          energy_production = annual_insolation * r_area roof * (2 / 10)
      in \<lparr>r_id = r_id roof, r_centroid = r_centroid roof, r_normal = r_normal roof,
          r_area = r_area roof, r_tilt = r_tilt roof, r_azimuth = r_azimuth roof,
          r_type = r_type roof,
          sun_hours = sun_hours roof, sun_access_percent = sun_access_percent roof,
          weighted_hours = weighted_hours roof,
          suitability = suitability, annual_insolation = annual_insolation,
          energy_production = energy_production\<rparr>)"

text \<open>\<^verbatim>\<open>roof_props.sort(key=lambda x: x['suitability'], reverse=True)\<close> is a stable sort by
  descending suitability: a stable ascending sort on the negated key.\<close>

definition calculate_solar_potential :: "roof_access list \<Rightarrow> roof_result list" where
  "calculate_solar_potential roof_props =
     (case roof_props of
        [] \<Rightarrow> []
      | r # rs \<Rightarrow>
          let max_weighted_hours = foldl max (weighted_hours r) (map weighted_hours rs);
              min_weighted_hours = foldl min (weighted_hours r) (map weighted_hours rs);
              range_weighted = max (max_weighted_hours - min_weighted_hours) (1 / 1000)
          in sort_key (\<lambda>x. - suitability x)
               (map (solar_potential_of min_weighted_hours range_weighted) roof_props))"


section \<open>Properties of the roof generators\<close>

subsection \<open>Auxiliary facts\<close>

lemma bounds_footprint_10_10:
  "bounds (footprint_pts (Point3D 0 0 0) 10 10) = Inr (0, 10, 0, 10)"
  by (simp add: bounds_def footprint_pts_def)

lemma tan_radians_30: "tan (radians 30) = 1 / sqrt 3"
proof -
  have "radians 30 = pi / 6" unfolding radians_def by simp
  then show ?thesis by (simp only: tan_30)
qed

lemma five_tan_30_le_4: "5 * tan (radians 30) \<le> 4"
proof -
  have "5 / 4 \<le> sqrt (3::real)"
    by (rule real_le_rsqrt) (simp add: power2_eq_square)
  then show ?thesis by (simp add: tan_radians_30 field_simps)
qed

lemma bounds_footprint_10_6:
  "bounds (footprint_pts (Point3D 0 0 0) 10 6) = Inr (0, 10, 0, 6)"
  by (simp add: bounds_def footprint_pts_def)

lemma tan_radians_45: "tan (radians 45) = 1"
proof -
  have "radians 45 = pi / 4" unfolding radians_def by simp
  then show ?thesis by (simp only: tan_45)
qed

lemma tan_radians_25_less_30: "tan (radians 25) < tan (radians 30)"
proof (rule tan_monotone)
  show "- (pi / 2) < radians 25" unfolding radians_def using pi_gt_zero by simp
  show "radians 25 < radians 30" unfolding radians_def using pi_gt_zero by simp
  show "radians 30 < pi / 2" unfolding radians_def using pi_gt_zero by simp
qed

lemma five_tan_25_less_4: "5 * tan (radians 25) < 4"
  using tan_radians_25_less_30 five_tan_30_le_4 by simp

lemma upt_0_4: "[0..<4] = [0, 1, 2, 3]"
  by (simp add: upt_rec)

lemma hip_10_10:
  "create_hip_roof (footprint_pts (Point3D 0 0 0) 10 10) 10 rh ang =
     Inr [[Point3D 0 0 10, Point3D 10 0 10, Point3D 5 5 (10 + max rh (5 * tan (radians ang)))],
          [Point3D 10 0 10, Point3D 10 10 10, Point3D 5 5 (10 + max rh (5 * tan (radians ang)))],
          [Point3D 10 10 10, Point3D 0 10 10, Point3D 5 5 (10 + max rh (5 * tan (radians ang)))],
          [Point3D 0 10 10, Point3D 0 0 10, Point3D 5 5 (10 + max rh (5 * tan (radians ang)))]]"
  by (simp add: create_hip_roof_def bounds_footprint_10_10 upt_0_4 Let_def)

lemma five_tan_30_le_3: "5 * tan (radians 30) \<le> 3"
proof -
  have "5 / 3 \<le> sqrt (3::real)"
    by (rule real_le_rsqrt) (simp add: power2_eq_square)
  then show ?thesis by (simp add: tan_radians_30 field_simps)
qed

lemma float_limit_large: "2 ^ 64 \<le> float_limit"
  by (simp add: float_limit_def)

lemma not_overflows_small: "\<bar>x\<bar> < 2 ^ 64 \<Longrightarrow> \<not> overflows x"
  using float_limit_large by (simp add: overflows_def)

lemma float_round_eval:
  fixes k :: nat
  assumes "2 ^ k \<le> \<bar>x\<bar>" "\<bar>x\<bar> < 2 ^ (k + 1)"
  shows "float_round x = of_int (round_even (x * 2 ^ 52 / 2 ^ k)) * 2 ^ k / 2 ^ 52"
proof -
  have "(0::real) < 2 ^ k" by simp
  with assms(1) have pos: "0 < \<bar>x\<bar>" by linarith
  have "\<lfloor>log 2 \<bar>x\<bar>\<rfloor> = int k"
    using assms pos by (simp add: floor_log_eq_powr_iff powr_realpow powr_add)
  then have e: "max \<lfloor>log 2 \<bar>x\<bar>\<rfloor> (- 1022) = int k" by simp
  have u: "2 powr (real k - 52) = (2::real) ^ k / 2 ^ 52"
    by (simp add: powr_diff powr_realpow)
  from pos have "x \<noteq> 0" by auto
  then show ?thesis
    by (simp add: float_round_def e u Let_def)
qed

lemma float_round_10: "float_round 10 = 10"
  using float_round_eval [of 3 10] by (simp add: round_even_def)

lemma float_of_10: "float_of 10 = Finite 10"
  using not_overflows_small [of 10] by (simp add: float_of_def float_round_10)

lemma int_trunc_floor_max:
  "(case int_trunc (Finite v) of Inl e \<Rightarrow> Inl e | Inr k \<Rightarrow> Inr (max 2 k)) = Inr (max 2 \<lfloor>v\<rfloor>)"
proof (cases "0 \<le> v")
  case True
  then show ?thesis by (simp add: int_trunc_def)
next
  case False
  then have "v < 0" by simp
  then have "\<lceil>v\<rceil> \<le> 0" "\<lfloor>v\<rfloor> \<le> 0"
    by (simp_all add: ceiling_le_zero floor_le_zero)
  with False show ?thesis by (simp add: int_trunc_def)
qed

lemma num_sections_of_floor:
  assumes "section_width \<noteq> 0" "\<not> overflows (width / section_width)"
  shows "num_sections_of (Finite width) section_width =
           Inr (max 2 \<lfloor>float_round (width / section_width)\<rfloor>)"
  using assms int_trunc_floor_max [of "float_round (width / section_width)"]
  by (simp add: num_sections_of_def int_of_quotient_def float_div_def float_of_def)

lemma num_sections_of_zero: "num_sections_of width 0 = Inl ZeroDivisionError"
  by (simp add: num_sections_of_def int_of_quotient_def float_div_def)

lemma num_sections_of_infinite:
  "section_width \<noteq> 0 \<Longrightarrow> num_sections_of Infinite section_width = Inl OverflowError"
  by (simp add: num_sections_of_def int_of_quotient_def float_div_def int_trunc_def)

lemma num_sections_of_overflow:
  assumes "section_width \<noteq> 0" "overflows (width / section_width)"
  shows "num_sections_of (Finite width) section_width = Inl OverflowError"
  using assms
  by (simp add: num_sections_of_def int_of_quotient_def float_div_def float_of_def
        int_trunc_def)

lemma float_round_4: "float_round 4 = 4"
  using float_round_eval [of 2 4] by (simp add: round_even_def)

lemma bounds_footprint_near_3:
  "bounds (footprint_pts (Point3D 0 0 0) (3 + 1 / 2 ^ 51) 1) = Inr (0, 3 + 1 / 2 ^ 51, 0, 1)"
  by (simp add: bounds_def footprint_pts_def)

lemma float_round_near_3: "float_round (3 + 1 / 2 ^ 51) = 3 + 1 / 2 ^ 51"
  using float_round_eval [of 1 "3 + 1 / 2 ^ 51"] by (simp add: round_even_def)

lemma float_round_quotient_near_3:
  "float_round ((3 + 1 / 2 ^ 51) / (1 + 1 / 2 ^ 52)) = 3"
  using float_round_eval [of 1 "(3 + 1 / 2 ^ 51) / (1 + 1 / 2 ^ 52)"]
  by (simp add: round_even_def)

lemma sawtooth_section_explicit:
  "sawtooth_section min_x min_y max_y height roof_height w i =
     (if even i then
        [Point3D (min_x + real i * w) min_y height,
         Point3D (min_x + (real i + 1) * w) min_y height,
         Point3D (min_x + (real i + 1) * w) max_y height,
         Point3D (min_x + real i * w) max_y (height + roof_height)]
      else
        [Point3D (min_x + real i * w) min_y (height + roof_height),
         Point3D (min_x + (real i + 1) * w) min_y height,
         Point3D (min_x + (real i + 1) * w) max_y height,
         Point3D (min_x + real i * w) max_y (height + roof_height)])"
  by (simp add: sawtooth_section_def Let_def even_iff_mod_2_eq_zero)

lemma place_panels_foldl:
  "foldl (\<lambda>(panels_placed, panel_faces) (i, j).
            if int panels_placed < num_panels
            then (panels_placed + 1, panel_faces @ [panel i j])
            else (panels_placed, panel_faces))
         (k, acc) slots
   = (k + min (nat (num_panels - int k)) (length slots),
      acc @ map (\<lambda>(i, j). panel i j) (take (nat (num_panels - int k)) slots))"
proof (induction slots arbitrary: k acc)
  case Nil
  then show ?case by simp
next
  case (Cons s slots)
  obtain i j where s: "s = (i, j)" by (cases s)
  show ?case
  proof (cases "int k < num_panels")
    case True
    then have n: "nat (num_panels - int k) = Suc (nat (num_panels - int (k + 1)))"
      by linarith
    show ?thesis
      using True by (simp add: s Cons.IH n del: of_nat_Suc of_nat_add)
  next
    case False
    then have n: "nat (num_panels - int k) = 0" by simp
    show ?thesis
      using False by (simp add: s Cons.IH n)
  qed
qed

lemma place_panels_take:
  "snd (place_panels min_x min_y height orientation angle_rad max_panels_x max_panels_y num_panels)
   = map (\<lambda>(i, j). solar_panel min_x min_y height orientation angle_rad i j)
       (take (nat num_panels) (List.product [0..<nat max_panels_x] [0..<nat max_panels_y]))"
  unfolding place_panels_def by (simp add: place_panels_foldl)

lemma flat_10_10:
  "create_flat_roof (footprint_pts (Point3D 0 0 0) 10 10) 10 (3 / 10) 0 =
     Inr [Point3D 0 0 (103 / 10), Point3D 10 0 (103 / 10), Point3D 10 10 (103 / 10),
          Point3D 0 10 (103 / 10)]"
  by (simp add: create_flat_roof_def footprint_pts_def Face3D_def Let_def)

lemma slots_5_10_take: "take 40 (List.product [0..<5] [0..<10]) ! 9 = (0, 9)"
  by (simp add: upt_rec)

lemma slots_5_10_len: "length (take 40 (List.product [0..<5] [0..<10])) = 40"
  by simp

subsection \<open>Gable roof\<close>

text \<open>
  Claim C5. On a footprint with bounding box \<open>[min_x, max_x] \<times> [min_y, max_y]\<close> the gable
  generator returns exactly four faces: two quadrilateral slope faces that share the two
  ridge points, and two triangular gable ends, each closed by one ridge point. Both ridge
  points lie at \<open>height + max roof_height (half_span * tan slope_angle)\<close>, where the half
  span is half the width for the axis \<open>y\<close> and half the depth otherwise; every other vertex
  lies at the base height. For the 10 by 10 footprint at the origin with height 10, roof
  height 4, axis \<open>y\<close> and slope angle 30 the ridge lies at \<open>z = 14\<close>.
\<close>

theorem gable_ridge_height:
  "(bounds footprint = Inr (min_x, max_x, min_y, max_y) \<longrightarrow>
      (\<exists>slope1 slope2 gable1 gable2 ridge1 ridge2.
         create_gable_roof footprint height roof_height axis slope_angle =
           Inr [slope1, slope2, gable1, gable2] \<and>
         length slope1 = 4 \<and> length slope2 = 4 \<and> length gable1 = 3 \<and> length gable2 = 3 \<and>
         slope1 ! 3 = ridge1 \<and> slope1 ! 2 = ridge2 \<and> slope2 ! 3 = ridge1 \<and> slope2 ! 2 = ridge2 \<and>
         gable1 ! 2 = ridge1 \<and> gable2 ! 2 = ridge2 \<and>
         pz ridge1 = height + max roof_height
           ((if axis = ''y'' then max_x - min_x else max_y - min_y) / 2
              * tan (radians slope_angle)) \<and>
         pz ridge2 = pz ridge1 \<and>
         pz (slope1 ! 0) = height \<and> pz (slope1 ! 1) = height \<and>
         pz (slope2 ! 0) = height \<and> pz (slope2 ! 1) = height \<and>
         pz (gable1 ! 0) = height \<and> pz (gable1 ! 1) = height \<and>
         pz (gable2 ! 0) = height \<and> pz (gable2 ! 1) = height))
   \<and> create_gable_roof (footprint_pts (Point3D 0 0 0) 10 10) 10 4 ''y'' 30 =
       Inr [[Point3D 0 0 10, Point3D 0 10 10, Point3D 5 10 14, Point3D 5 0 14],
            [Point3D 10 0 10, Point3D 10 10 10, Point3D 5 10 14, Point3D 5 0 14],
            [Point3D 0 0 10, Point3D 10 0 10, Point3D 5 0 14],
            [Point3D 0 10 10, Point3D 10 10 10, Point3D 5 10 14]]"
proof (intro conjI impI)
  assume b: "bounds footprint = Inr (min_x, max_x, min_y, max_y)"
  show "\<exists>slope1 slope2 gable1 gable2 ridge1 ridge2.
         create_gable_roof footprint height roof_height axis slope_angle =
           Inr [slope1, slope2, gable1, gable2] \<and>
         length slope1 = 4 \<and> length slope2 = 4 \<and> length gable1 = 3 \<and> length gable2 = 3 \<and>
         slope1 ! 3 = ridge1 \<and> slope1 ! 2 = ridge2 \<and> slope2 ! 3 = ridge1 \<and> slope2 ! 2 = ridge2 \<and>
         gable1 ! 2 = ridge1 \<and> gable2 ! 2 = ridge2 \<and>
         pz ridge1 = height + max roof_height
           ((if axis = ''y'' then max_x - min_x else max_y - min_y) / 2
              * tan (radians slope_angle)) \<and>
         pz ridge2 = pz ridge1 \<and>
         pz (slope1 ! 0) = height \<and> pz (slope1 ! 1) = height \<and>
         pz (slope2 ! 0) = height \<and> pz (slope2 ! 1) = height \<and>
         pz (gable1 ! 0) = height \<and> pz (gable1 ! 1) = height \<and>
         pz (gable2 ! 0) = height \<and> pz (gable2 ! 1) = height"
  proof (cases "axis = ''y''")
    case True
    with b show ?thesis by (simp add: create_gable_roof_def Let_def)
  next
    case False
    with b show ?thesis by (simp add: create_gable_roof_def Let_def)
  qed
next
  have "max 4 (5 * tan (radians 30)) = (4::real)"
    using five_tan_30_le_4 by simp
  then show "create_gable_roof (footprint_pts (Point3D 0 0 0) 10 10) 10 4 ''y'' 30 =
       Inr [[Point3D 0 0 10, Point3D 0 10 10, Point3D 5 10 14, Point3D 5 0 14],
            [Point3D 10 0 10, Point3D 10 10 10, Point3D 5 10 14, Point3D 5 0 14],
            [Point3D 0 0 10, Point3D 10 0 10, Point3D 5 0 14],
            [Point3D 0 10 10, Point3D 10 10 10, Point3D 5 10 14]]"
    by (simp add: create_gable_roof_def bounds_footprint_10_10 Let_def)
qed

text \<open>The theorem at the footprint of the scenario, read off the general part: the
  hypothesis holds there and the ridge of the first slope face is at \<open>z = 14\<close>.\<close>

theorem gable_ridge_height_witness:
  "bounds (footprint_pts (Point3D 0 0 0) 10 10) = Inr (0, 10, 0, 10) \<and>
   (\<exists>slope1 slope2 gable1 gable2.
      create_gable_roof (footprint_pts (Point3D 0 0 0) 10 10) 10 4 ''y'' 30 =
        Inr [slope1, slope2, gable1, gable2] \<and>
      length slope1 = 4 \<and> length gable1 = 3 \<and>
      pz (slope1 ! 3) = 14 \<and> pz (slope1 ! 2) = 14)"
proof -
  have m: "max 4 (5 * tan (radians 30)) = (4::real)"
    using five_tan_30_le_4 by simp
  from gable_ridge_height [of "footprint_pts (Point3D 0 0 0) 10 10" 0 10 0 10 10 4 "''y''" 30]
  obtain slope1 slope2 gable1 gable2 ridge1 ridge2 where
    r: "create_gable_roof (footprint_pts (Point3D 0 0 0) 10 10) 10 4 ''y'' 30 =
          Inr [slope1, slope2, gable1, gable2]"
    and l: "length slope1 = 4" "length gable1 = 3"
    and p: "slope1 ! 3 = ridge1" "slope1 ! 2 = ridge2"
    and z: "pz ridge1 = 10 + max 4 ((if ''y'' = ''y'' then (10::real) - 0 else 10 - 0) / 2
              * tan (radians 30))" "pz ridge2 = pz ridge1"
    using bounds_footprint_10_10 by blast
  from z m have "pz ridge1 = 14" "pz ridge2 = 14" by simp_all
  with r l p show ?thesis using bounds_footprint_10_10 by blast
qed

subsection \<open>Shed roof\<close>

text \<open>
  Claim C6. With a slope angle given, the rise of the shed roof is \<open>span * tan angle\<close>
  whatever roof height is passed: the span is the depth \<open>max_y - min_y\<close> for the directions
  north and south and the width \<open>max_x - min_x\<close> for east and west, the high edge is the
  one named by the direction and the opposite edge stays at the base height. For width 10,
  depth 6, direction north and angle 25 the edge at \<open>y = max_y\<close> is at
  \<open>height + 6 * tan 25\<degree>\<close> and the edge at \<open>y = min_y\<close> at \<open>height\<close>.
\<close>

theorem shed_angle_overrides_height:
  "(bounds footprint = Inr (min_x, max_x, min_y, max_y) \<longrightarrow>
      create_shed_roof footprint height roof_height ''north'' (Some a) =
        Inr [Point3D min_x min_y height, Point3D max_x min_y height,
             Point3D max_x max_y (height + (max_y - min_y) * tan (radians a)),
             Point3D min_x max_y (height + (max_y - min_y) * tan (radians a))] \<and>
      create_shed_roof footprint height roof_height ''south'' (Some a) =
        Inr [Point3D min_x min_y (height + (max_y - min_y) * tan (radians a)),
             Point3D max_x min_y (height + (max_y - min_y) * tan (radians a)),
             Point3D max_x max_y height, Point3D min_x max_y height] \<and>
      create_shed_roof footprint height roof_height ''east'' (Some a) =
        Inr [Point3D min_x min_y height,
             Point3D max_x min_y (height + (max_x - min_x) * tan (radians a)),
             Point3D max_x max_y (height + (max_x - min_x) * tan (radians a)),
             Point3D min_x max_y height] \<and>
      create_shed_roof footprint height roof_height ''west'' (Some a) =
        Inr [Point3D min_x min_y (height + (max_x - min_x) * tan (radians a)),
             Point3D max_x min_y height, Point3D max_x max_y height,
             Point3D min_x max_y (height + (max_x - min_x) * tan (radians a))])
   \<and> create_shed_roof (footprint_pts (Point3D 0 0 0) 10 6) height roof_height ''north'' (Some 25) =
       Inr [Point3D 0 0 height, Point3D 10 0 height,
            Point3D 10 6 (height + 6 * tan (radians 25)),
            Point3D 0 6 (height + 6 * tan (radians 25))]"
  by (simp add: create_shed_roof_def bounds_footprint_10_6 Let_def)

text \<open>The general part at a 10 by 6 footprint, direction east, angle 45: the rise is the
  width, whatever the roof height 2 that is passed.\<close>

theorem shed_angle_overrides_height_witness:
  "bounds (footprint_pts (Point3D 0 0 0) 10 6) = Inr (0, 10, 0, 6) \<and>
   create_shed_roof (footprint_pts (Point3D 0 0 0) 10 6) 3 2 ''east'' (Some 45) =
     Inr [Point3D 0 0 3, Point3D 10 0 13, Point3D 10 6 13, Point3D 0 6 3]"
  using shed_angle_overrides_height
          [of "footprint_pts (Point3D 0 0 0) 10 6" 0 10 0 6 3 2 45]
        bounds_footprint_10_6 tan_radians_45
  by simp

subsection \<open>Pyramid and hip roofs\<close>

text \<open>
  Claim C10. Through \<^verbatim>\<open>create_roof\<close> the pyramid roof has four triangles over the corners
  of the bounding box, all closed by one apex above its centre, at
  \<open>z = height + max roof_height (min width depth / 2 * tan 25\<degree>)\<close>, where the roof height is
  the parameter or 4. No other parameter is read, so the apex is never lower than
  \<open>height + min width depth / 2 * tan 25\<degree>\<close>.
\<close>

theorem pyramid_apex_height:
  "bounds footprint = Inr (min_x, max_x, min_y, max_y) \<longrightarrow>
     (\<exists>f1 f2 f3 f4 apex.
        create_roof footprint height ''pyramid'' roof_params = Inr ([f1, f2, f3, f4], []) \<and>
        f1 = [Point3D min_x min_y height, Point3D max_x min_y height, apex] \<and>
        f2 = [Point3D max_x min_y height, Point3D max_x max_y height, apex] \<and>
        f3 = [Point3D max_x max_y height, Point3D min_x max_y height, apex] \<and>
        f4 = [Point3D min_x max_y height, Point3D min_x min_y height, apex] \<and>
        px apex = (min_x + max_x) / 2 \<and> py apex = (min_y + max_y) / 2 \<and>
        pz apex = height + max (get_or (p_roof_height roof_params) 4)
                    (min (max_x - min_x) (max_y - min_y) / 2 * tan (radians 25)) \<and>
        pz apex \<ge> height + min (max_x - min_x) (max_y - min_y) / 2 * tan (radians 25))"
  by (simp add: create_roof_def create_pyramid_roof_def create_hip_roof_def no_panels_def
        upt_0_4 Let_def)

text \<open>At the 10 by 10 footprint with only a slope angle of 45 in the parameters, the
  angle is ignored and the apex is at \<open>(5, 5, 14)\<close>.\<close>

theorem pyramid_apex_height_witness:
  "bounds (footprint_pts (Point3D 0 0 0) 10 10) = Inr (0, 10, 0, 10) \<and>
   (\<exists>f1 f2 f3 f4 apex.
      create_roof (footprint_pts (Point3D 0 0 0) 10 10) 10 ''pyramid''
        (no_params\<lparr>p_slope_angle := Some 45\<rparr>) = Inr ([f1, f2, f3, f4], []) \<and>
      f1 ! 2 = apex \<and> f2 ! 2 = apex \<and> f3 ! 2 = apex \<and> f4 ! 2 = apex \<and>
      apex = Point3D 5 5 14)"
proof -
  have m: "max 4 (5 * tan (radians 25)) = (4::real)"
    using five_tan_25_less_4 by simp
  from pyramid_apex_height
    [of "footprint_pts (Point3D 0 0 0) 10 10" 0 10 0 10 10
        "no_params\<lparr>p_slope_angle := Some 45\<rparr>"]
  obtain f1 f2 f3 f4 apex where
    r: "create_roof (footprint_pts (Point3D 0 0 0) 10 10) 10 ''pyramid''
          (no_params\<lparr>p_slope_angle := Some 45\<rparr>) = Inr ([f1, f2, f3, f4], [])"
    and f: "f1 = [Point3D 0 0 10, Point3D 10 0 10, apex]"
           "f2 = [Point3D 10 0 10, Point3D 10 10 10, apex]"
           "f3 = [Point3D 10 10 10, Point3D 0 10 10, apex]"
           "f4 = [Point3D 0 10 10, Point3D 0 0 10, apex]"
    and a: "px apex = (0 + 10) / 2" "py apex = (0 + 10) / 2"
           "pz apex = 10 + max (get_or (p_roof_height (no_params\<lparr>p_slope_angle := Some 45\<rparr>)) 4)
                        (min (10 - 0) (10 - 0) / 2 * tan (radians 25))"
    using bounds_footprint_10_10 by blast
  from a m have "apex = Point3D 5 5 14"
    by (cases apex) (simp add: get_or_def no_params_def)
  with r f show ?thesis using bounds_footprint_10_10 by auto
qed

text \<open>
  Claim C4, as stated, fails. With the parameters \<open>roof_height = 1\<close> and
  \<open>slope_angle = 45\<close> the hip roof over the 10 by 10 footprint has its apex at \<open>z = 15\<close>,
  the pyramid roof below it, since the pyramid generator never sees the angle; and with no
  parameters at all the two differ again, since the default roof height is 2.5 for the hip
  roof and 4 for the pyramid roof.
\<close>

theorem pyramid_differs_from_hip:
  "create_roof (footprint_pts (Point3D 0 0 0) 10 10) 10 ''pyramid''
       (no_params\<lparr>p_roof_height := Some 1, p_slope_angle := Some 45\<rparr>)
     \<noteq> create_roof (footprint_pts (Point3D 0 0 0) 10 10) 10 ''hip''
         (no_params\<lparr>p_roof_height := Some 1, p_slope_angle := Some 45\<rparr>)
   \<and> create_roof (footprint_pts (Point3D 0 0 0) 10 10) 10 ''pyramid'' no_params
     \<noteq> create_roof (footprint_pts (Point3D 0 0 0) 10 10) 10 ''hip'' no_params"
proof -
  have a: "max 1 (5 * tan (radians 25)) \<noteq> (5::real)"
    using five_tan_25_less_4 by (simp add: max_def)
  have b: "max 1 (5 * tan (radians 45)) = (5::real)"
    by (simp add: tan_radians_45)
  have c: "max 4 (5 * tan (radians 25)) = (4::real)"
    using five_tan_25_less_4 by simp
  have d: "max (5 / 2) (5 * tan (radians 25)) \<noteq> (4::real)"
    using five_tan_25_less_4 by (simp add: max_def)
  show ?thesis
    by (simp add: create_roof_def create_pyramid_roof_def hip_10_10 no_panels_def get_or_def
          no_params_def a b c d)
qed

text \<open>
  Claim C4, amended. \<^verbatim>\<open>create_pyramid_roof\<close> with a roof height returns what
  \<^verbatim>\<open>create_hip_roof\<close> returns with that roof height and the slope angle 25; through
  \<^verbatim>\<open>create_roof\<close> the two roof types give the same faces, in the same order, whenever the
  parameters hold a roof height and hold no slope angle or the slope angle 25.
\<close>

theorem pyramid_equals_hip_at_default_angle:
  "create_pyramid_roof footprint height roof_height =
     create_hip_roof footprint height roof_height 25
   \<and> (p_roof_height roof_params = Some roof_height \<and>
      (p_slope_angle roof_params = None \<or> p_slope_angle roof_params = Some 25) \<longrightarrow>
      create_roof footprint height ''pyramid'' roof_params =
        create_roof footprint height ''hip'' roof_params)"
  by (auto simp add: create_roof_def create_pyramid_roof_def get_or_def)

text \<open>The amended claim at the 10 by 10 footprint with \<open>roof_height = 5\<close> alone.\<close>

theorem pyramid_equals_hip_at_default_angle_witness:
  "p_roof_height (no_params\<lparr>p_roof_height := Some 5\<rparr>) = Some 5 \<and>
   p_slope_angle (no_params\<lparr>p_roof_height := Some 5\<rparr>) = None \<and>
   create_roof (footprint_pts (Point3D 0 0 0) 10 10) 10 ''pyramid''
       (no_params\<lparr>p_roof_height := Some 5\<rparr>) =
     create_roof (footprint_pts (Point3D 0 0 0) 10 10) 10 ''hip''
       (no_params\<lparr>p_roof_height := Some 5\<rparr>)"
  using pyramid_equals_hip_at_default_angle
          [of "footprint_pts (Point3D 0 0 0) 10 10" 10 5 "no_params\<lparr>p_roof_height := Some 5\<rparr>"]
  by (simp add: no_params_def)

subsection \<open>Sawtooth roof\<close>

text \<open>
  Claim C9, as stated, fails for two kinds of section width. For the section width 0 the
  division \<^verbatim>\<open>width / section_width\<close> raises \<^verbatim>\<open>ZeroDivisionError\<close>; for a section width
  so small that the quotient is too large for a float, here \<open>1 / 10 ^ 310\<close> against the
  width 10, the quotient is an infinity and \<^verbatim>\<open>int\<close> raises \<^verbatim>\<open>OverflowError\<close>. No section
  is produced in either case.
\<close>

theorem sawtooth_no_sections:
  "create_sawtooth_roof (footprint_pts (Point3D 0 0 0) 10 10) 10 0 2 30 = Inl ZeroDivisionError
   \<and> create_sawtooth_roof (footprint_pts (Point3D 0 0 0) 10 10) 10 (1 / 10 ^ 310) 2 30
       = Inl OverflowError"
proof -
  have "overflows (10 / (1 / 10 ^ 310))"
    by (simp add: overflows_def float_limit_def)
  then have "num_sections_of (Finite 10) (1 / 10 ^ 310) = Inl OverflowError"
    by (intro num_sections_of_overflow) simp_all
  then show ?thesis
    by (simp add: create_sawtooth_roof_def bounds_footprint_10_10 float_of_10
          num_sections_of_zero Let_def)
qed

text \<open>
  Claim C9, amended. On a footprint with bounding box \<open>[min_x, max_x] \<times> [min_y, max_y]\<close>
  the sawtooth generator raises \<^verbatim>\<open>ZeroDivisionError\<close> for the section width 0 and
  \<^verbatim>\<open>OverflowError\<close> when the width \<open>max_x - min_x\<close> or the quotient of the width by the
  section width is too large for a float. For every other section width it returns
  \<open>n = max 2 \<lfloor>q\<rfloor>\<close> quadrilateral sections, where \<open>q\<close> is the quotient
  \<^verbatim>\<open>width / section_width\<close> as the float division returns it: section \<open>i\<close> spans \<open>x\<close> from
  \<open>min_x + i * width / n\<close> to \<open>min_x + (i + 1) * width / n\<close>, rises to
  \<open>height + roof_height\<close> at its first edge (on one corner when \<open>i\<close> is even, on both when it
  is odd), and has the width \<open>width / n\<close>; the section widths add up to the width.
\<close>

theorem sawtooth_sections:
  "bounds footprint = Inr (min_x, max_x, min_y, max_y) \<longrightarrow>
     (section_width = 0 \<longrightarrow>
        create_sawtooth_roof footprint height section_width roof_height slope_angle =
          Inl ZeroDivisionError) \<and>
     (section_width \<noteq> 0 \<and>
      (overflows (max_x - min_x) \<or>
       overflows (float_round (max_x - min_x) / section_width)) \<longrightarrow>
        create_sawtooth_roof footprint height section_width roof_height slope_angle =
          Inl OverflowError) \<and>
     (section_width \<noteq> 0 \<and> \<not> overflows (max_x - min_x) \<and>
      \<not> overflows (float_round (max_x - min_x) / section_width) \<longrightarrow>
        (\<exists>faces width n.
           create_sawtooth_roof footprint height section_width roof_height slope_angle =
             Inr faces \<and>
           width = float_round (max_x - min_x) \<and>
           n = max 2 \<lfloor>float_round (width / section_width)\<rfloor> \<and>
           int (length faces) = n \<and>
           (\<forall>i < length faces.
              faces ! i =
                (let x1 = min_x + real i * (width / real_of_int n);
                     x2 = min_x + (real i + 1) * (width / real_of_int n)
                 in if even i then
                      [Point3D x1 min_y height, Point3D x2 min_y height,
                       Point3D x2 max_y height, Point3D x1 max_y (height + roof_height)]
                    else
                      [Point3D x1 min_y (height + roof_height), Point3D x2 min_y height,
                       Point3D x2 max_y height, Point3D x1 max_y (height + roof_height)]) \<and>
              px (faces ! i ! 1) - px (faces ! i ! 0) = width / real_of_int n) \<and>
           (\<Sum>i < length faces. px (faces ! i ! 1) - px (faces ! i ! 0)) = width))"
proof (intro impI conjI; (elim conjE)?)
  assume b: "bounds footprint = Inr (min_x, max_x, min_y, max_y)"
  {
    assume "section_width = 0"
    then show "create_sawtooth_roof footprint height section_width roof_height slope_angle =
          Inl ZeroDivisionError"
      using b by (simp add: create_sawtooth_roof_def num_sections_of_zero Let_def)
  }
  {
    assume nz: "section_width \<noteq> 0"
      and o: "overflows (max_x - min_x) \<or>
              overflows (float_round (max_x - min_x) / section_width)"
    have "num_sections_of (float_of (max_x - min_x)) section_width = Inl OverflowError"
    proof (cases "overflows (max_x - min_x)")
      case True
      with nz show ?thesis by (simp add: float_of_def num_sections_of_infinite)
    next
      case False
      with o have "overflows (float_round (max_x - min_x) / section_width)" by simp
      with nz False show ?thesis by (simp add: float_of_def num_sections_of_overflow)
    qed
    then show "create_sawtooth_roof footprint height section_width roof_height slope_angle =
          Inl OverflowError"
      using b by (simp add: create_sawtooth_roof_def Let_def)
  }
  {
    assume nz: "section_width \<noteq> 0" and o1: "\<not> overflows (max_x - min_x)"
      and o2: "\<not> overflows (float_round (max_x - min_x) / section_width)"
    define width where "width = float_round (max_x - min_x)"
    define n where "n = max 2 \<lfloor>float_round (width / section_width)\<rfloor>"
    define w where "w = width / real_of_int n"
    define faces where
      "faces = map (sawtooth_section min_x min_y max_y height roof_height w) [0..<nat n]"
    have n2: "2 \<le> n" by (simp add: n_def)
    have fw: "float_of (max_x - min_x) = Finite width"
      using o1 by (simp add: float_of_def width_def)
    have ns: "num_sections_of (Finite width) section_width = Inr n"
      unfolding n_def using nz o2 [folded width_def] by (rule num_sections_of_floor)
    have r: "create_sawtooth_roof footprint height section_width roof_height slope_angle =
               Inr faces"
      using b fw ns by (simp add: create_sawtooth_roof_def Let_def faces_def w_def)
    have len: "int (length faces) = n" using n2 by (simp add: faces_def)
    have sect: "\<forall>i < length faces.
              faces ! i =
                (let x1 = min_x + real i * w; x2 = min_x + (real i + 1) * w
                 in if even i then
                      [Point3D x1 min_y height, Point3D x2 min_y height,
                       Point3D x2 max_y height, Point3D x1 max_y (height + roof_height)]
                    else
                      [Point3D x1 min_y (height + roof_height), Point3D x2 min_y height,
                       Point3D x2 max_y height, Point3D x1 max_y (height + roof_height)]) \<and>
              px (faces ! i ! 1) - px (faces ! i ! 0) = w"
      by (simp add: faces_def sawtooth_section_explicit Let_def algebra_simps)
    have "(\<Sum>i < length faces. px (faces ! i ! 1) - px (faces ! i ! 0)) =
            (\<Sum>i < length faces. w)"
    proof (rule sum.cong)
      fix i assume "i \<in> {..<length faces}"
      then have "i < length faces" by simp
      with sect show "px (faces ! i ! 1) - px (faces ! i ! 0) = w" by blast
    qed simp
    also have "\<dots> = real (length faces) * w" by simp
    also have "real (length faces) = real_of_int n" using len by linarith
    also have "real_of_int n * w = width" using n2 by (simp add: w_def)
    finally have total:
      "(\<Sum>i < length faces. px (faces ! i ! 1) - px (faces ! i ! 0)) = width" .
    show "\<exists>faces width n.
           create_sawtooth_roof footprint height section_width roof_height slope_angle =
             Inr faces \<and>
           width = float_round (max_x - min_x) \<and>
           n = max 2 \<lfloor>float_round (width / section_width)\<rfloor> \<and>
           int (length faces) = n \<and>
           (\<forall>i < length faces.
              faces ! i =
                (let x1 = min_x + real i * (width / real_of_int n);
                     x2 = min_x + (real i + 1) * (width / real_of_int n)
                 in if even i then
                      [Point3D x1 min_y height, Point3D x2 min_y height,
                       Point3D x2 max_y height, Point3D x1 max_y (height + roof_height)]
                    else
                      [Point3D x1 min_y (height + roof_height), Point3D x2 min_y height,
                       Point3D x2 max_y height, Point3D x1 max_y (height + roof_height)]) \<and>
              px (faces ! i ! 1) - px (faces ! i ! 0) = width / real_of_int n) \<and>
           (\<Sum>i < length faces. px (faces ! i ! 1) - px (faces ! i ! 0)) = width"
      using r len sect total width_def n_def unfolding w_def by blast
  }
qed

text \<open>
  The amended claim at the 10 by 10 footprint with section width 2.5, height 10 and roof
  height 2: four sections with the boundaries 0, 2.5, 5, 7.5 and 10. And at a footprint
  of the width \<open>3 + 1 / 2 ^ 51\<close> with the section width \<open>1 + 1 / 2 ^ 52\<close>, both of them
  floats: the exact quotient is below 3, the float quotient is 3, and three sections are
  returned.
\<close>

theorem sawtooth_sections_witness:
  "bounds (footprint_pts (Point3D 0 0 0) 10 10) = Inr (0, 10, 0, 10) \<and> (5 / 2 :: real) \<noteq> 0 \<and>
   \<not> overflows (10 - 0) \<and> \<not> overflows (float_round (10 - 0) / (5 / 2)) \<and>
   (\<exists>faces.
      create_sawtooth_roof (footprint_pts (Point3D 0 0 0) 10 10) 10 (5 / 2) 2 30 = Inr faces \<and>
      length faces = 4 \<and>
      faces ! 0 = [Point3D 0 0 10, Point3D (5 / 2) 0 10, Point3D (5 / 2) 10 10,
                   Point3D 0 10 12] \<and>
      faces ! 1 = [Point3D (5 / 2) 0 12, Point3D 5 0 10, Point3D 5 10 10,
                   Point3D (5 / 2) 10 12] \<and>
      faces ! 2 = [Point3D 5 0 10, Point3D (15 / 2) 0 10, Point3D (15 / 2) 10 10,
                   Point3D 5 10 12] \<and>
      faces ! 3 = [Point3D (15 / 2) 0 12, Point3D 10 0 10, Point3D 10 10 10,
                   Point3D (15 / 2) 10 12] \<and>
      (\<Sum>i < length faces. px (faces ! i ! 1) - px (faces ! i ! 0)) = 10) \<and>
   \<lfloor>(3 + 1 / 2 ^ 51) / (1 + 1 / 2 ^ 52 :: real)\<rfloor> = 2 \<and>
   (\<exists>faces.
      create_sawtooth_roof (footprint_pts (Point3D 0 0 0) (3 + 1 / 2 ^ 51) 1) 0
        (1 + 1 / 2 ^ 52) 2 30 = Inr faces \<and>
      length faces = 3)"
proof -
  have o: "\<not> overflows (10 - 0)" "\<not> overflows (float_round (10 - 0) / (5 / 2))"
    by (rule not_overflows_small, simp add: float_round_10)+
  have pre: "(5 / 2 :: real) \<noteq> 0 \<and> \<not> overflows (10 - 0) \<and>
             \<not> overflows (float_round (10 - 0) / (5 / 2))"
    using o by simp
  note t = sawtooth_sections
             [of "footprint_pts (Point3D 0 0 0) 10 10" 0 10 0 10 "5 / 2" 10 2 30,
              THEN mp, OF bounds_footprint_10_10, THEN conjunct2, THEN conjunct2,
              THEN mp, OF pre]
  from t obtain faces width m where
    r: "create_sawtooth_roof (footprint_pts (Point3D 0 0 0) 10 10) 10 (5 / 2) 2 30 = Inr faces"
    and wd: "width = float_round (10 - 0)"
    and m: "m = max 2 \<lfloor>float_round (width / (5 / 2))\<rfloor>"
    and l: "int (length faces) = m"
    and x: "\<forall>i < length faces.
              faces ! i =
                (let x1 = 0 + real i * (width / real_of_int m);
                     x2 = 0 + (real i + 1) * (width / real_of_int m)
                 in if even i then
                      [Point3D x1 0 10, Point3D x2 0 10, Point3D x2 10 10, Point3D x1 10 (10 + 2)]
                    else
                      [Point3D x1 0 (10 + 2), Point3D x2 0 10, Point3D x2 10 10,
                       Point3D x1 10 (10 + 2)]) \<and>
              px (faces ! i ! 1) - px (faces ! i ! 0) = width / real_of_int m"
    and s: "(\<Sum>i < length faces. px (faces ! i ! 1) - px (faces ! i ! 0)) = width"
    by blast
  from wd have w10: "width = 10" by (simp add: float_round_10)
  with m have m4: "m = 4" by (simp add: float_round_4)
  from l m4 have l4: "length faces = 4" by simp
  have i: "(0::nat) < length faces" "(1::nat) < length faces" "(2::nat) < length faces"
    "(3::nat) < length faces"
    using l4 by simp_all
  have f: "faces ! 0 = [Point3D 0 0 10, Point3D (5 / 2) 0 10, Point3D (5 / 2) 10 10,
                   Point3D 0 10 12]"
      "faces ! 1 = [Point3D (5 / 2) 0 12, Point3D 5 0 10, Point3D 5 10 10,
                   Point3D (5 / 2) 10 12]"
      "faces ! 2 = [Point3D 5 0 10, Point3D (15 / 2) 0 10, Point3D (15 / 2) 10 10,
                   Point3D 5 10 12]"
      "faces ! 3 = [Point3D (15 / 2) 0 12, Point3D 10 0 10, Point3D 10 10 10,
                   Point3D (15 / 2) 10 12]"
    using x [rule_format, OF i(1)] x [rule_format, OF i(2)] x [rule_format, OF i(3)]
      x [rule_format, OF i(4)]
    by (simp_all add: Let_def m4 w10)
  have first: "\<exists>faces.
      create_sawtooth_roof (footprint_pts (Point3D 0 0 0) 10 10) 10 (5 / 2) 2 30 = Inr faces \<and>
      length faces = 4 \<and>
      faces ! 0 = [Point3D 0 0 10, Point3D (5 / 2) 0 10, Point3D (5 / 2) 10 10,
                   Point3D 0 10 12] \<and>
      faces ! 1 = [Point3D (5 / 2) 0 12, Point3D 5 0 10, Point3D 5 10 10,
                   Point3D (5 / 2) 10 12] \<and>
      faces ! 2 = [Point3D 5 0 10, Point3D (15 / 2) 0 10, Point3D (15 / 2) 10 10,
                   Point3D 5 10 12] \<and>
      faces ! 3 = [Point3D (15 / 2) 0 12, Point3D 10 0 10, Point3D 10 10 10,
                   Point3D (15 / 2) 10 12] \<and>
      (\<Sum>i < length faces. px (faces ! i ! 1) - px (faces ! i ! 0)) = 10"
    using r l4 f s w10 by blast
  have e: "float_round (3 + 1 / 2 ^ 51 - 0) = 3 + 1 / 2 ^ 51"
    by (simp only: diff_zero float_round_near_3)
  have o': "\<not> overflows (3 + 1 / 2 ^ 51 - 0)"
    "\<not> overflows (float_round (3 + 1 / 2 ^ 51 - 0) / (1 + 1 / 2 ^ 52))"
    unfolding e by (rule not_overflows_small, simp)+
  have pre': "(1 + 1 / 2 ^ 52 :: real) \<noteq> 0 \<and> \<not> overflows (3 + 1 / 2 ^ 51 - 0) \<and>
             \<not> overflows (float_round (3 + 1 / 2 ^ 51 - 0) / (1 + 1 / 2 ^ 52))"
    using o' by simp
  note t' = sawtooth_sections
             [of "footprint_pts (Point3D 0 0 0) (3 + 1 / 2 ^ 51) 1" 0 "3 + 1 / 2 ^ 51" 0 1
                 "1 + 1 / 2 ^ 52" 0 2 30,
              THEN mp, OF bounds_footprint_near_3, THEN conjunct2, THEN conjunct2,
              THEN mp, OF pre']
  from t' obtain faces' width' m' where
    r': "create_sawtooth_roof (footprint_pts (Point3D 0 0 0) (3 + 1 / 2 ^ 51) 1) 0
           (1 + 1 / 2 ^ 52) 2 30 = Inr faces'"
    and wd': "width' = float_round (3 + 1 / 2 ^ 51 - 0)"
    and m': "m' = max 2 \<lfloor>float_round (width' / (1 + 1 / 2 ^ 52))\<rfloor>"
    and l': "int (length faces') = m'"
    by blast
  from wd' have "width' = 3 + 1 / 2 ^ 51" by (simp only: e)
  with m' have "m' = 3" by (simp only: float_round_quotient_near_3) simp
  with l' have "length faces' = 3" by simp
  with r' have second: "\<exists>faces.
      create_sawtooth_roof (footprint_pts (Point3D 0 0 0) (3 + 1 / 2 ^ 51) 1) 0
        (1 + 1 / 2 ^ 52) 2 30 = Inr faces \<and>
      length faces = 3"
    by blast
  have fl: "\<lfloor>(3 + 1 / 2 ^ 51) / (1 + 1 / 2 ^ 52 :: real)\<rfloor> = 2" by simp
  from first second fl o show ?thesis using bounds_footprint_10_10 by simp
qed

subsection \<open>Dispatch and validation\<close>

text \<open>
  Claim C3, as stated, fails: \<^verbatim>\<open>create_roof\<close> checks no dimension. With the negative
  height \<open>- 5\<close> the gable roof over the 10 by 10 footprint is generated as for any other
  height, with its eaves at \<open>z = - 5\<close> and its ridge at \<open>z = - 2\<close>, and no error is reported.
\<close>

theorem create_roof_accepts_negative_height:
  "create_roof (footprint_pts (Point3D 0 0 0) 10 10) (- 5) ''gable'' no_params =
     Inr ([[Point3D 0 0 (- 5), Point3D 0 10 (- 5), Point3D 5 10 (- 2), Point3D 5 0 (- 2)],
           [Point3D 10 0 (- 5), Point3D 10 10 (- 5), Point3D 5 10 (- 2), Point3D 5 0 (- 2)],
           [Point3D 0 0 (- 5), Point3D 10 0 (- 5), Point3D 5 0 (- 2)],
           [Point3D 0 10 (- 5), Point3D 10 10 (- 5), Point3D 5 10 (- 2)]], [])"
proof -
  have "max 3 (5 * tan (radians 30)) = (3::real)"
    using five_tan_30_le_3 by simp
  then show ?thesis
    by (simp add: create_roof_def create_gable_roof_def bounds_footprint_10_10 no_panels_def
          get_or_def no_params_def Let_def)
qed

text \<open>
  Claim C3, amended. \<^verbatim>\<open>create_roof\<close> validates no dimension: for every non-empty
  footprint, every height and every parameter record, zero and negative values included, a
  request of the type gable, hip, pyramid, mansard or butterfly reports no error and
  returns the faces of that type over the bounding box of the footprint it was given, at
  the height it was given, and no panels. The faces are listed: \<open>c1\<close> to \<open>c4\<close> are the
  corners of the bounding box at the base height, counter-clockwise from
  \<open>(min_x, min_y)\<close>.
\<close>

theorem create_roof_no_validation:
  "bounds footprint = Inr (min_x, max_x, min_y, max_y) \<longrightarrow>
     (let c1 = Point3D min_x min_y height; c2 = Point3D max_x min_y height;
          c3 = Point3D max_x max_y height; c4 = Point3D min_x max_y height;
          width = max_x - min_x; depth = max_y - min_y;
          center_x = (min_x + max_x) / 2; center_y = (min_y + max_y) / 2
      in
        create_roof footprint height ''gable'' roof_params =
          (let t = tan (radians (get_or (p_slope_angle roof_params) 30));
               rh = get_or (p_roof_height roof_params) 3
           in if get_or (p_axis roof_params) ''y'' = ''y'' then
                let z = height + max rh (width / 2 * t);
                    r1 = Point3D center_x min_y z; r2 = Point3D center_x max_y z
                in Inr ([[c1, c4, r2, r1], [c2, c3, r2, r1], [c1, c2, r1], [c4, c3, r2]], [])
              else
                let z = height + max rh (depth / 2 * t);
                    r1 = Point3D min_x center_y z; r2 = Point3D max_x center_y z
                in Inr ([[c1, c2, r2, r1], [c4, c3, r2, r1], [c1, c4, r1], [c2, c3, r2]], []))
        \<and> create_roof footprint height ''hip'' roof_params =
          (let apex = Point3D center_x center_y
                 (height + max (get_or (p_roof_height roof_params) (5 / 2))
                    (min width depth / 2
                       * tan (radians (get_or (p_slope_angle roof_params) 25))))
           in Inr ([[c1, c2, apex], [c2, c3, apex], [c3, c4, apex], [c4, c1, apex]], []))
        \<and> create_roof footprint height ''pyramid'' roof_params =
          (let apex = Point3D center_x center_y
                 (height + max (get_or (p_roof_height roof_params) 4)
                    (min width depth / 2 * tan (radians 25)))
           in Inr ([[c1, c2, apex], [c2, c3, apex], [c3, c4, apex], [c4, c1, apex]], []))
        \<and> create_roof footprint height ''mansard'' roof_params =
          (let z = height + get_or (p_roof_height roof_params) 3 * (7 / 10);
               m1 = Point3D (min_x + width * (25 / 100)) (min_y + depth * (25 / 100)) z;
               m2 = Point3D (max_x - width * (25 / 100)) (min_y + depth * (25 / 100)) z;
               m3 = Point3D (max_x - width * (25 / 100)) (max_y - depth * (25 / 100)) z;
               m4 = Point3D (min_x + width * (25 / 100)) (max_y - depth * (25 / 100)) z
           in Inr ([[c1, c2, m2, m1], [c2, c3, m3, m2], [c3, c4, m4, m3], [c4, c1, m1, m4],
                    [m1, m2, m3, m4]], []))
        \<and> create_roof footprint height ''butterfly'' roof_params =
          (let z = height + get_or (p_roof_height roof_params) 2;
               v = z - get_or (p_valley_depth roof_params) 1
           in Inr ([[Point3D min_x min_y z, Point3D center_x min_y v,
                     Point3D center_x max_y v, Point3D min_x max_y z],
                    [Point3D center_x min_y v, Point3D max_x min_y z,
                     Point3D max_x max_y z, Point3D center_x max_y v]], [])))"
proof
  assume b: "bounds footprint = Inr (min_x, max_x, min_y, max_y)"
  have gable: "create_roof footprint height ''gable'' roof_params =
          (let t = tan (radians (get_or (p_slope_angle roof_params) 30));
               rh = get_or (p_roof_height roof_params) 3
           in if get_or (p_axis roof_params) ''y'' = ''y'' then
                let z = height + max rh ((max_x - min_x) / 2 * t);
                    r1 = Point3D ((min_x + max_x) / 2) min_y z;
                    r2 = Point3D ((min_x + max_x) / 2) max_y z
                in Inr ([[Point3D min_x min_y height, Point3D min_x max_y height, r2, r1],
                         [Point3D max_x min_y height, Point3D max_x max_y height, r2, r1],
                         [Point3D min_x min_y height, Point3D max_x min_y height, r1],
                         [Point3D min_x max_y height, Point3D max_x max_y height, r2]], [])
              else
                let z = height + max rh ((max_y - min_y) / 2 * t);
                    r1 = Point3D min_x ((min_y + max_y) / 2) z;
                    r2 = Point3D max_x ((min_y + max_y) / 2) z
                in Inr ([[Point3D min_x min_y height, Point3D max_x min_y height, r2, r1],
                         [Point3D min_x max_y height, Point3D max_x max_y height, r2, r1],
                         [Point3D min_x min_y height, Point3D min_x max_y height, r1],
                         [Point3D max_x min_y height, Point3D max_x max_y height, r2]], []))"
    using b by (simp add: create_roof_def create_gable_roof_def no_panels_def Let_def)
  have hip: "create_hip_roof footprint height rh a =
      Inr [[Point3D min_x min_y height, Point3D max_x min_y height,
            Point3D ((min_x + max_x) / 2) ((min_y + max_y) / 2)
              (height + max rh (min (max_x - min_x) (max_y - min_y) / 2 * tan (radians a)))],
           [Point3D max_x min_y height, Point3D max_x max_y height,
            Point3D ((min_x + max_x) / 2) ((min_y + max_y) / 2)
              (height + max rh (min (max_x - min_x) (max_y - min_y) / 2 * tan (radians a)))],
           [Point3D max_x max_y height, Point3D min_x max_y height,
            Point3D ((min_x + max_x) / 2) ((min_y + max_y) / 2)
              (height + max rh (min (max_x - min_x) (max_y - min_y) / 2 * tan (radians a)))],
           [Point3D min_x max_y height, Point3D min_x min_y height,
            Point3D ((min_x + max_x) / 2) ((min_y + max_y) / 2)
              (height + max rh (min (max_x - min_x) (max_y - min_y) / 2 * tan (radians a)))]]"
    for rh a
    using b by (simp add: create_hip_roof_def upt_0_4 Let_def)
  have mansard: "create_roof footprint height ''mansard'' roof_params =
          (let z = height + get_or (p_roof_height roof_params) 3 * (7 / 10);
               m1 = Point3D (min_x + (max_x - min_x) * (25 / 100))
                      (min_y + (max_y - min_y) * (25 / 100)) z;
               m2 = Point3D (max_x - (max_x - min_x) * (25 / 100))
                      (min_y + (max_y - min_y) * (25 / 100)) z;
               m3 = Point3D (max_x - (max_x - min_x) * (25 / 100))
                      (max_y - (max_y - min_y) * (25 / 100)) z;
               m4 = Point3D (min_x + (max_x - min_x) * (25 / 100))
                      (max_y - (max_y - min_y) * (25 / 100)) z
           in Inr ([[Point3D min_x min_y height, Point3D max_x min_y height, m2, m1],
                    [Point3D max_x min_y height, Point3D max_x max_y height, m3, m2],
                    [Point3D max_x max_y height, Point3D min_x max_y height, m4, m3],
                    [Point3D min_x max_y height, Point3D min_x min_y height, m1, m4],
                    [m1, m2, m3, m4]], []))"
    using b by (simp add: create_roof_def create_mansard_roof_def no_panels_def upt_0_4 Let_def)
  have butterfly: "create_roof footprint height ''butterfly'' roof_params =
          (let z = height + get_or (p_roof_height roof_params) 2;
               v = z - get_or (p_valley_depth roof_params) 1
           in Inr ([[Point3D min_x min_y z, Point3D ((min_x + max_x) / 2) min_y v,
                     Point3D ((min_x + max_x) / 2) max_y v, Point3D min_x max_y z],
                    [Point3D ((min_x + max_x) / 2) min_y v, Point3D max_x min_y z,
                     Point3D max_x max_y z, Point3D ((min_x + max_x) / 2) max_y v]], []))"
    using b by (simp add: create_roof_def create_butterfly_roof_def no_panels_def Let_def)
  show "let c1 = Point3D min_x min_y height; c2 = Point3D max_x min_y height;
          c3 = Point3D max_x max_y height; c4 = Point3D min_x max_y height;
          width = max_x - min_x; depth = max_y - min_y;
          center_x = (min_x + max_x) / 2; center_y = (min_y + max_y) / 2
      in
        create_roof footprint height ''gable'' roof_params =
          (let t = tan (radians (get_or (p_slope_angle roof_params) 30));
               rh = get_or (p_roof_height roof_params) 3
           in if get_or (p_axis roof_params) ''y'' = ''y'' then
                let z = height + max rh (width / 2 * t);
                    r1 = Point3D center_x min_y z; r2 = Point3D center_x max_y z
                in Inr ([[c1, c4, r2, r1], [c2, c3, r2, r1], [c1, c2, r1], [c4, c3, r2]], [])
              else
                let z = height + max rh (depth / 2 * t);
                    r1 = Point3D min_x center_y z; r2 = Point3D max_x center_y z
                in Inr ([[c1, c2, r2, r1], [c4, c3, r2, r1], [c1, c4, r1], [c2, c3, r2]], []))
        \<and> create_roof footprint height ''hip'' roof_params =
          (let apex = Point3D center_x center_y
                 (height + max (get_or (p_roof_height roof_params) (5 / 2))
                    (min width depth / 2
                       * tan (radians (get_or (p_slope_angle roof_params) 25))))
           in Inr ([[c1, c2, apex], [c2, c3, apex], [c3, c4, apex], [c4, c1, apex]], []))
        \<and> create_roof footprint height ''pyramid'' roof_params =
          (let apex = Point3D center_x center_y
                 (height + max (get_or (p_roof_height roof_params) 4)
                    (min width depth / 2 * tan (radians 25)))
           in Inr ([[c1, c2, apex], [c2, c3, apex], [c3, c4, apex], [c4, c1, apex]], []))
        \<and> create_roof footprint height ''mansard'' roof_params =
          (let z = height + get_or (p_roof_height roof_params) 3 * (7 / 10);
               m1 = Point3D (min_x + width * (25 / 100)) (min_y + depth * (25 / 100)) z;
               m2 = Point3D (max_x - width * (25 / 100)) (min_y + depth * (25 / 100)) z;
               m3 = Point3D (max_x - width * (25 / 100)) (max_y - depth * (25 / 100)) z;
               m4 = Point3D (min_x + width * (25 / 100)) (max_y - depth * (25 / 100)) z
           in Inr ([[c1, c2, m2, m1], [c2, c3, m3, m2], [c3, c4, m4, m3], [c4, c1, m1, m4],
                    [m1, m2, m3, m4]], []))
        \<and> create_roof footprint height ''butterfly'' roof_params =
          (let z = height + get_or (p_roof_height roof_params) 2;
               v = z - get_or (p_valley_depth roof_params) 1
           in Inr ([[Point3D min_x min_y z, Point3D center_x min_y v,
                     Point3D center_x max_y v, Point3D min_x max_y z],
                    [Point3D center_x min_y v, Point3D max_x min_y z,
                     Point3D max_x max_y z, Point3D center_x max_y v]], []))"
    unfolding Let_def
    using gable [unfolded Let_def] mansard [unfolded Let_def] butterfly [unfolded Let_def]
    by (simp add: create_roof_def create_pyramid_roof_def hip no_panels_def)
qed

text \<open>The amended claim for a butterfly roof on the 10 by 10 footprint at the negative
  height \<open>- 5\<close>, with the roof height 0 and the negative valley depth \<open>- 1\<close>.\<close>

theorem create_roof_no_validation_witness:
  "bounds (footprint_pts (Point3D 0 0 0) 10 10) = Inr (0, 10, 0, 10) \<and>
   create_roof (footprint_pts (Point3D 0 0 0) 10 10) (- 5) ''butterfly''
       (no_params\<lparr>p_roof_height := Some 0, p_valley_depth := Some (- 1)\<rparr>) =
     Inr ([[Point3D 0 0 (- 5), Point3D 5 0 (- 4), Point3D 5 10 (- 4), Point3D 0 10 (- 5)],
           [Point3D 5 0 (- 4), Point3D 10 0 (- 5), Point3D 10 10 (- 5), Point3D 5 10 (- 4)]],
          [])"
proof -
  note t = create_roof_no_validation
             [of "footprint_pts (Point3D 0 0 0) 10 10" 0 10 0 10 "- 5"
                 "no_params\<lparr>p_roof_height := Some 0, p_valley_depth := Some (- 1)\<rparr>",
              THEN mp, OF bounds_footprint_10_10, unfolded Let_def]
  from t have "create_roof (footprint_pts (Point3D 0 0 0) 10 10) (- 5) ''butterfly''
       (no_params\<lparr>p_roof_height := Some 0, p_valley_depth := Some (- 1)\<rparr>) =
     Inr ([[Point3D 0 0 (- 5), Point3D 5 0 (- 4), Point3D 5 10 (- 4), Point3D 0 10 (- 5)],
           [Point3D 5 0 (- 4), Point3D 10 0 (- 5), Point3D 10 10 (- 5), Point3D 5 10 (- 4)]],
          [])"
    by (simp add: get_or_def no_params_def)
  then show ?thesis using bounds_footprint_10_10 by simp
qed

subsection \<open>Panel layout of the solar roof\<close>

text \<open>
  Claim C1 does not hold of the code. The number of slots per axis is
  \<^verbatim>\<open>int(width / panel_width)\<close> and \<^verbatim>\<open>int(depth / panel_height)\<close>, computed without the
  spacing, while the slots are laid out at a pitch of panel size plus spacing. For the
  10 by 10 footprint at the origin with height 10 and the default tilt 15, orientation
  south and coverage 0.8, forty panels are placed; the tenth, in slot \<open>(0, 9)\<close>, spans
  \<open>y\<close> from 9.9 to 10.9 and leaves the bounding box \<open>[0, 10] \<times> [0, 10]\<close>.
\<close>

theorem panel_outside_footprint:
  "\<exists>roof_faces panel_faces.
     bounds (footprint_pts (Point3D 0 0 0) 10 10) = Inr (0, 10, 0, 10) \<and>
     create_solar_roof (footprint_pts (Point3D 0 0 0) 10 10) 10 15 ''south'' (8 / 10) =
       Inr (roof_faces, panel_faces) \<and>
     length panel_faces = 40 \<and>
     panel_faces ! 9 =
       [Point3D 0 (99 / 10) (201 / 20), Point3D (17 / 10) (99 / 10) (201 / 20),
        Point3D (17 / 10) (109 / 10) (201 / 20 + sin (radians 15)),
        Point3D 0 (109 / 10) (201 / 20 + sin (radians 15))] \<and>
     py (panel_faces ! 9 ! 2) > 10"
proof -
  have q: "float_round (100 / 17) = 827867578560753 / 2 ^ 47"
    using float_round_eval [of 2 "100 / 17"] by (simp add: round_even_def)
  have fx: "float_of (10 / panel_width) = Finite (827867578560753 / 2 ^ 47)"
    using not_overflows_small [of "100 / 17"] by (simp add: float_of_def panel_width_def q)
  have mx: "int_of_quotient (Finite 10) panel_width = Inr 5"
    by (simp add: int_of_quotient_def float_div_def fx int_trunc_def) (simp add: panel_width_def)
  have my: "int_of_quotient (Finite 10) panel_height = Inr 10"
    by (simp add: int_of_quotient_def float_div_def panel_height_def float_of_10 int_trunc_def)
  have f50: "float_of 50 = Finite 50"
    using not_overflows_small [of 50] float_round_eval [of 5 50]
    by (simp add: float_of_def round_even_def)
  have f40: "float_of 40 = Finite 40"
    using not_overflows_small [of 40] float_round_eval [of 5 40]
    by (simp add: float_of_def round_even_def)
  have np: "int_of_product 50 (4 / 5) = Inr 40"
    by (simp add: int_of_product_def f50 f40 int_trunc_def)
  have p9: "solar_panel 0 0 10 ''south'' (radians 15) 0 9 =
       [Point3D 0 (99 / 10) (201 / 20), Point3D (17 / 10) (99 / 10) (201 / 20),
        Point3D (17 / 10) (109 / 10) (201 / 20 + sin (radians 15)),
        Point3D 0 (109 / 10) (201 / 20 + sin (radians 15))]"
    by (simp add: solar_panel_def lift_vertex_def panel_width_def panel_height_def
          panel_spacing_def panel_thickness_def Let_def)
  have r: "create_solar_roof (footprint_pts (Point3D 0 0 0) 10 10) 10 15 ''south'' (8 / 10) =
      Inr ([[Point3D 0 0 (103 / 10), Point3D 10 0 (103 / 10), Point3D 10 10 (103 / 10),
             Point3D 0 10 (103 / 10)]],
           map (\<lambda>(i, j). solar_panel 0 0 10 ''south'' (radians 15) i j)
             (take 40 (List.product [0..<5] [0..<10])))"
    by (simp add: create_solar_roof_def bounds_footprint_10_10 flat_10_10 float_of_10 mx my np
          place_panels_take Let_def)
  have n9: "map (\<lambda>(i, j). solar_panel 0 0 10 ''south'' (radians 15) i j)
             (take 40 (List.product [0..<5] [0..<10])) ! 9
            = solar_panel 0 0 10 ''south'' (radians 15) 0 9"
    using slots_5_10_take slots_5_10_len by (simp only: nth_map) simp
  show ?thesis
    using r n9 p9 bounds_footprint_10_10 slots_5_10_len by (simp del: take_Suc)  
qed

section \<open>Properties of the suitability scorer\<close>

subsection \<open>Auxiliary facts\<close>

lemma magnitude_axis [simp]:
  "magnitude (Vector3D 0 0 1) = 1" "magnitude (Vector3D 0 1 0) = 1"
  by (simp_all add: magnitude_def)

lemma magnitude_nonneg: "0 \<le> magnitude n"
  by (simp add: magnitude_def)

lemma vz_le_magnitude: "\<bar>vz n\<bar> \<le> magnitude n"
proof -
  have "(vz n)\<^sup>2 \<le> (vx n)\<^sup>2 + (vy n)\<^sup>2 + (vz n)\<^sup>2" by simp
  then have "sqrt ((vz n)\<^sup>2) \<le> sqrt ((vx n)\<^sup>2 + (vy n)\<^sup>2 + (vz n)\<^sup>2)"
    by (simp only: real_sqrt_le_iff)
  then show ?thesis by (simp add: magnitude_def)
qed

lemma angle_up:
  "magnitude n \<noteq> 0 \<Longrightarrow> angle n (Vector3D 0 0 1) = Inr (arccos (vz n / magnitude n))"
  by (simp add: angle_def dot_def)

lemma degrees_bounds:
  assumes "0 \<le> a" "a \<le> pi"
  shows "0 \<le> a * 180 / pi" "a * 180 / pi \<le> 180"
  using assms pi_gt_zero by (simp_all add: field_simps)

lemma degrees_le_90:
  assumes "a \<le> pi / 2"
  shows "a * 180 / pi \<le> 90"
  using assms pi_gt_zero by (simp add: field_simps)

lemma degrees_pos:
  assumes "0 < a"
  shows "0 < a * 180 / pi"
  using assms pi_gt_zero by simp

lemma roof_azimuth_range:
  "\<exists>az. roof_azimuth normal = Inr az \<and> 0 \<le> az \<and> az \<le> 360"
proof (cases "magnitude (Vector3D (vx normal) (vy normal) 0) < 1 / 1000")
  case True
  then show ?thesis by (simp add: roof_azimuth_def Let_def)
next
  case False
  define d where "d = magnitude (Vector3D (vx normal) (vy normal) 0)"
  have dpos: "0 < d" using False by (simp add: d_def)
  have d2: "d\<^sup>2 = (vx normal)\<^sup>2 + (vy normal)\<^sup>2"
    by (simp add: d_def magnitude_def)
  define h where "h = Vector3D (vx normal / d) (vy normal / d) 0"
  have nh: "normalize_vec (Vector3D (vx normal) (vy normal) 0) = h"
    using dpos by (simp add: normalize_vec_def d_def [symmetric] h_def Let_def)
  have "(vx normal / d)\<^sup>2 + (vy normal / d)\<^sup>2 =
          ((vx normal)\<^sup>2 + (vy normal)\<^sup>2) / d\<^sup>2"
    by (simp add: power_divide add_divide_distrib)
  also have "\<dots> = 1" using dpos by (simp add: d2 [symmetric])
  finally have mh: "magnitude h = 1" by (simp add: h_def magnitude_def)
  define c where "c = vy normal / d"
  have ah: "angle h (Vector3D 0 1 0) = Inr (arccos c)"
    using mh by (simp add: angle_def dot_def h_def c_def)
  have "(vy normal)\<^sup>2 \<le> d\<^sup>2" using d2 by simp
  then have "\<bar>vy normal\<bar> \<le> d" using dpos by (simp add: power2_le_iff_abs_le)
  then have cb: "- 1 \<le> c" "c \<le> 1" using dpos by (simp_all add: c_def field_simps)
  have az: "roof_azimuth normal =
      Inr (if vx normal < 0 then 360 - arccos c * 180 / pi else arccos c * 180 / pi)"
    using False nh ah by (simp add: roof_azimuth_def Let_def)
  have b: "0 \<le> arccos c * 180 / pi" "arccos c * 180 / pi \<le> 180"
    using degrees_bounds [OF arccos_lbound [OF cb] arccos_ubound [OF cb]] by simp_all
  show ?thesis using az b by simp
qed

lemma foldl_min_Min: "foldl min (a::real) xs = Min (set (a # xs))"
proof (induction xs arbitrary: a)
  case Nil
  show ?case by simp
next
  case (Cons x xs)
  show ?case
    by (cases "xs = []") (simp_all add: Cons.IH min.assoc)
qed

lemma foldl_max_Max: "foldl max (a::real) xs = Max (set (a # xs))"
proof (induction xs arbitrary: a)
  case Nil
  show ?case by simp
next
  case (Cons x xs)
  show ?case
    by (cases "xs = []") (simp_all add: Cons.IH max.assoc)
qed

lemma calculate_solar_potential_Cons:
  "calculate_solar_potential (r # rs) =
     sort_key (\<lambda>x. - suitability x)
       (map (solar_potential_of (Min (weighted_hours ` set (r # rs)))
               (max (Max (weighted_hours ` set (r # rs)) - Min (weighted_hours ` set (r # rs)))
                  (1 / 1000)))
          (r # rs))"
proof -
  have mn: "foldl min (weighted_hours r) (map weighted_hours rs) =
              Min (weighted_hours ` set (r # rs))"
    unfolding foldl_min_Min by simp
  have mx: "foldl max (weighted_hours r) (map weighted_hours rs) =
              Max (weighted_hours ` set (r # rs))"
    unfolding foldl_max_Max by simp
  show ?thesis
    unfolding calculate_solar_potential_def list.case Let_def mn mx ..
qed

lemma calculate_solar_potential_set:
  "set (calculate_solar_potential roof_props) =
     solar_potential_of (Min (weighted_hours ` set roof_props))
       (max (Max (weighted_hours ` set roof_props) - Min (weighted_hours ` set roof_props))
          (1 / 1000)) ` set roof_props"
proof (cases roof_props)
  case Nil
  then show ?thesis by (simp add: calculate_solar_potential_def)
next
  case (Cons r rs)
  have "set (calculate_solar_potential (r # rs)) =
     solar_potential_of (Min (weighted_hours ` set (r # rs)))
       (max (Max (weighted_hours ` set (r # rs)) - Min (weighted_hours ` set (r # rs)))
          (1 / 1000)) ` set (r # rs)"
    unfolding calculate_solar_potential_Cons by (simp only: set_sort set_map)
  with Cons show ?thesis by (simp only:)
qed

lemma solar_potential_of_range:
  assumes "m \<le> weighted_hours x" "weighted_hours x - m \<le> g" "0 < g"
  shows "0 \<le> suitability (solar_potential_of m g x)"
    and "suitability (solar_potential_of m g x) \<le> 1"
proof -
  define t where "t = 1 - min \<bar>r_tilt x - 35\<bar> 90 / 90"
  define a where "a = 1 - min \<bar>r_azimuth x - 180\<bar> 180 / 180"
  define e where "e = (weighted_hours x - m) / g"
  have tb: "0 \<le> t" "t \<le> 1" by (simp_all add: t_def)
  have ab: "0 \<le> a" "a \<le> 1" by (simp_all add: a_def)
  have eb: "0 \<le> e" "e \<le> 1" using assms by (simp_all add: e_def)
  have s: "suitability (solar_potential_of m g x) = 25 / 100 * t + 25 / 100 * a + 5 / 10 * e"
    by (simp add: solar_potential_of_def t_def a_def e_def Let_def)
  show "0 \<le> suitability (solar_potential_of m g x)"
    unfolding s using tb ab eb by simp
  show "suitability (solar_potential_of m g x) \<le> 1"
    unfolding s using tb ab eb by simp
qed

lemma roof_properties_range:
  assumes "magnitude (geometry_normal roof) \<noteq> 0"
  shows "\<exists>p. roof_properties roof = Inr p \<and> - 90 \<le> r_tilt p \<and> r_tilt p \<le> 90 \<and>
           (0 \<le> vz (geometry_normal roof) \<longrightarrow> 0 \<le> r_tilt p) \<and>
           0 \<le> r_azimuth p \<and> r_azimuth p \<le> 360"
proof -
  define n where "n = geometry_normal roof"
  define c where "c = vz n / magnitude n"
  have u: "magnitude n \<noteq> 0" using assms by (simp add: n_def)
  then have mpos: "0 < magnitude n" using magnitude_nonneg [of n] by simp
  have zb: "- 1 \<le> c" "c \<le> 1"
    using vz_le_magnitude [of n] mpos by (simp_all add: c_def field_simps)
  obtain az where az: "roof_azimuth n = Inr az" "0 \<le> az" "az \<le> 360"
    using roof_azimuth_range by blast
  have d: "0 \<le> arccos c * 180 / pi" "arccos c * 180 / pi \<le> 180"
    using degrees_bounds [OF arccos_lbound [OF zb] arccos_ubound [OF zb]] by simp_all
  have up: "arccos c * 180 / pi \<le> 90" if "0 \<le> vz n"
  proof -
    from that mpos have "0 \<le> c" by (simp add: c_def)
    from degrees_le_90 [OF arccos_le_pi2 [OF this zb(2)]] show ?thesis .
  qed
  have "roof_properties roof =
      Inr \<lparr>r_id = roof_identifier roof, r_centroid = geometry_centroid roof, r_normal = n,
           r_area = geometry_area roof, r_tilt = 90 - arccos c * 180 / pi,
           r_azimuth = az, r_type = get_or (user_roof_type roof) ''unknown''\<rparr>"
    using angle_up [OF u] az(1)
    by (simp add: roof_properties_def n_def [symmetric] c_def Let_def)
  then show ?thesis using d up az(2,3) by (auto simp add: n_def)
qed

lemma analyze_solar_access_no_hours:
  "analyze_solar_access (roof # roofs) [] = Inl ZeroDivisionError"
  by (simp add: analyze_solar_access_def roof_access_of_def)


lemma solar_potential_of_explicit:
  "solar_potential_of m g roof =
     \<lparr>r_id = r_id roof, r_centroid = r_centroid roof, r_normal = r_normal roof,
      r_area = r_area roof, r_tilt = r_tilt roof, r_azimuth = r_azimuth roof,
      r_type = r_type roof,
      sun_hours = sun_hours roof, sun_access_percent = sun_access_percent roof,
      weighted_hours = weighted_hours roof,
      suitability =
        25 / 100 * (1 - min \<bar>r_tilt roof - 35\<bar> 90 / 90)
        + 25 / 100 * (1 - min \<bar>r_azimuth roof - 180\<bar> 180 / 180)
        + 5 / 10 * ((weighted_hours roof - m) / g),
      annual_insolation =
        1050 * (25 / 100 * (1 - min \<bar>r_tilt roof - 35\<bar> 90 / 90)
                + 25 / 100 * (1 - min \<bar>r_azimuth roof - 180\<bar> 180 / 180)
                + 5 / 10 * ((weighted_hours roof - m) / g)),
      energy_production =
        1050 * (25 / 100 * (1 - min \<bar>r_tilt roof - 35\<bar> 90 / 90)
                + 25 / 100 * (1 - min \<bar>r_azimuth roof - 180\<bar> 180 / 180)
                + 5 / 10 * ((weighted_hours roof - m) / g))
          * r_area roof * (2 / 10)\<rparr>"
  unfolding solar_potential_of_def Let_def by (rule refl)

lemma calculate_solar_potential_mset:
  "mset (calculate_solar_potential roof_props) =
     image_mset
       (solar_potential_of (Min (weighted_hours ` set roof_props))
          (max (Max (weighted_hours ` set roof_props) - Min (weighted_hours ` set roof_props))
             (1 / 1000)))
       (mset roof_props)"
proof (cases roof_props)
  case Nil
  then show ?thesis by (simp add: calculate_solar_potential_def)
next
  case (Cons r rs)
  have "mset (calculate_solar_potential (r # rs)) =
     image_mset
       (solar_potential_of (Min (weighted_hours ` set (r # rs)))
          (max (Max (weighted_hours ` set (r # rs)) - Min (weighted_hours ` set (r # rs)))
             (1 / 1000)))
       (mset (r # rs))"
    unfolding calculate_solar_potential_Cons by (simp only: mset_sort mset_map)
  with Cons show ?thesis by (simp only:)
qed

subsection \<open>The suitability score\<close>

text \<open>
  Claim C7, as stated, fails where it calls the exposure factor the min-max normalisation
  of the batch. The code divides by the range of the batch or by 0.001, whichever is
  larger. In a batch of two roofs with slope 35 and azimuth 180 and the weighted hours 0
  and 1/2000, the roof with the larger exposure gets the exposure factor 1/2 and the
  suitability 3/4, where the min-max normalisation gives the factor 1 and the
  suitability 1.
\<close>

theorem small_range_not_min_max:
  "map (\<lambda>r. (r_id r, suitability r))
     (calculate_solar_potential
        [with_access \<lparr>r_id = ''A'', r_centroid = Point3D 0 0 0, r_normal = Vector3D 0 0 1,
                      r_area = 10, r_tilt = 35, r_azimuth = 180, r_type = ''gable''\<rparr> 0 0 0,
         with_access \<lparr>r_id = ''B'', r_centroid = Point3D 0 0 0, r_normal = Vector3D 0 0 1,
                      r_area = 10, r_tilt = 35, r_azimuth = 180, r_type = ''gable''\<rparr>
           1 50 (1 / 2000)])
     = [(''B'', 3 / 4), (''A'', 1 / 2)]
   \<and> (3 / 4 :: real) \<noteq>
       25 / 100 * (1 - min \<bar>35 - 35\<bar> 90 / 90) + 25 / 100 * (1 - min \<bar>180 - 180\<bar> 180 / 180)
       + 5 / 10 * ((1 / 2000 - 0) / (1 / 2000 - 0))"
  by (simp add: calculate_solar_potential_def solar_potential_of_def with_access_def Let_def)

text \<open>
  Claim C7, amended. \<^verbatim>\<open>calculate_solar_potential\<close> returns one record for each roof of
  the batch, which keeps what the roof came with and adds the suitability
  \<open>0.25 * tilt_factor + 0.25 * azimuth_factor + 0.5 * exposure_factor\<close> with
  \<open>tilt_factor = 1 - min \<bar>slope - 35\<bar> 90 / 90\<close>,
  \<open>azimuth_factor = 1 - min \<bar>azimuth - 180\<bar> 180 / 180\<close> and the exposure factor the weighted
  hours of the roof less the minimum of the batch, divided by the larger of the range of
  the batch and 0.001; the annual insolation is 1050 times the suitability and the energy
  production the insolation times the area times 0.2.
\<close>

theorem suitability_formula:
  "mset (calculate_solar_potential roof_props) =
     image_mset
       (\<lambda>roof.
          let tilt_factor = 1 - min \<bar>r_tilt roof - 35\<bar> 90 / 90;
              azimuth_factor = 1 - min \<bar>r_azimuth roof - 180\<bar> 180 / 180;
              exposure_factor =
                (weighted_hours roof - Min (weighted_hours ` set roof_props))
                / max (Max (weighted_hours ` set roof_props)
                       - Min (weighted_hours ` set roof_props)) (1 / 1000);
              s = 25 / 100 * tilt_factor + 25 / 100 * azimuth_factor + 5 / 10 * exposure_factor
          in \<lparr>r_id = r_id roof, r_centroid = r_centroid roof, r_normal = r_normal roof,
              r_area = r_area roof, r_tilt = r_tilt roof, r_azimuth = r_azimuth roof,
              r_type = r_type roof,
              sun_hours = sun_hours roof, sun_access_percent = sun_access_percent roof,
              weighted_hours = weighted_hours roof,
              suitability = s, annual_insolation = 1050 * s,
              energy_production = 1050 * s * r_area roof * (2 / 10)\<rparr>)
       (mset roof_props)"
  unfolding calculate_solar_potential_mset Let_def
  by (rule image_mset_cong) (simp only: solar_potential_of_explicit)

subsection \<open>Ranges of slope, azimuth and suitability\<close>

text \<open>
  Claim C8, as stated, fails: the slope is \<open>90\<close> less the angle between the normal and the
  vertical, and for the unit normal \<open>(0, 0, - 1)\<close> that angle is 180 degrees, so the slope
  is \<open>- 90\<close>.
\<close>

theorem downward_normal_negative_slope:
  "magnitude (Vector3D 0 0 (- 1)) = 1 \<and>
   roof_properties \<lparr>roof_identifier = ''R'', geometry_normal = Vector3D 0 0 (- 1),
                    geometry_centroid = Point3D 0 0 0, geometry_area = 1,
                    user_roof_type = None\<rparr> =
     Inr \<lparr>r_id = ''R'', r_centroid = Point3D 0 0 0, r_normal = Vector3D 0 0 (- 1),
          r_area = 1, r_tilt = - 90, r_azimuth = 0, r_type = ''unknown''\<rparr>"
proof -
  have m: "magnitude (Vector3D 0 0 (- 1)) = 1" by (simp add: magnitude_def)
  then have "magnitude (Vector3D 0 0 (- 1)) \<noteq> 0" by simp
  from angle_up [OF this] m
  have a: "angle (Vector3D 0 0 (- 1)) (Vector3D 0 0 1) = Inr pi" by simp
  have z: "roof_azimuth (Vector3D 0 0 (- 1)) = Inr 0"
    by (simp add: roof_azimuth_def magnitude_def Let_def)
  show ?thesis
    using m by (simp add: roof_properties_def a z get_or_def Let_def)
qed

text \<open>
  Claim C8, amended. For every roof face with a unit normal (the theorem takes any length
  of the normal from 1/2 to 2, which covers a normal that is unit up to rounding), the
  roof properties are computed without error, the slope lies in
  \<open>[- 90, 90]\<close> (in \<open>[0, 90]\<close> when the normal does not point downwards) and the azimuth in
  \<open>[0, 360]\<close>; and for every batch every suitability lies in \<open>[0, 1]\<close>. The upper bound of
  the azimuth is closed: the code subtracts the angle to north from 360 for a normal that
  points west of north, and in float arithmetic that angle is 0 for a normal close enough
  to north.
\<close>

theorem scorer_ranges:
  "(1 / 2 \<le> magnitude (geometry_normal roof) \<and> magnitude (geometry_normal roof) \<le> 2 \<longrightarrow>
      (\<exists>p. roof_properties roof = Inr p \<and> - 90 \<le> r_tilt p \<and> r_tilt p \<le> 90 \<and>
           (0 \<le> vz (geometry_normal roof) \<longrightarrow> 0 \<le> r_tilt p) \<and>
           0 \<le> r_azimuth p \<and> r_azimuth p \<le> 360))
   \<and> (\<forall>r \<in> set (calculate_solar_potential roof_props).
         0 \<le> suitability r \<and> suitability r \<le> 1)"
proof (intro conjI impI ballI)
  assume "1 / 2 \<le> magnitude (geometry_normal roof) \<and> magnitude (geometry_normal roof) \<le> 2"
  then have "magnitude (geometry_normal roof) \<noteq> 0" by simp
  then show "\<exists>p. roof_properties roof = Inr p \<and> - 90 \<le> r_tilt p \<and> r_tilt p \<le> 90 \<and>
           (0 \<le> vz (geometry_normal roof) \<longrightarrow> 0 \<le> r_tilt p) \<and>
           0 \<le> r_azimuth p \<and> r_azimuth p \<le> 360"
    by (rule roof_properties_range)
next
  fix r
  assume "r \<in> set (calculate_solar_potential roof_props)"
  then obtain x where x: "x \<in> set roof_props"
    and r: "r = solar_potential_of (Min (weighted_hours ` set roof_props))
              (max (Max (weighted_hours ` set roof_props) - Min (weighted_hours ` set roof_props))
                 (1 / 1000)) x"
    unfolding calculate_solar_potential_set by blast
  have lo: "Min (weighted_hours ` set roof_props) \<le> weighted_hours x"
    using x by simp
  have hi: "weighted_hours x \<le> Max (weighted_hours ` set roof_props)"
    using x by simp
  have g: "weighted_hours x - Min (weighted_hours ` set roof_props)
             \<le> max (Max (weighted_hours ` set roof_props) - Min (weighted_hours ` set roof_props))
                  (1 / 1000)"
    using hi by simp
  have p: "(0::real) < max (Max (weighted_hours ` set roof_props)
                             - Min (weighted_hours ` set roof_props)) (1 / 1000)"
    by simp
  from solar_potential_of_range [OF lo g p]
  show "0 \<le> suitability r" "suitability r \<le> 1" unfolding r by simp_all
qed

text \<open>The amended claim at the south-facing vertical normal \<open>(0, - 1, 0)\<close> and at a
  batch of one roof.\<close>

theorem scorer_ranges_witness:
  "magnitude (geometry_normal
       \<lparr>roof_identifier = ''S'', geometry_normal = Vector3D 0 (- 1) 0,
        geometry_centroid = Point3D 0 0 0, geometry_area = 1, user_roof_type = None\<rparr>) = 1 \<and>
   (\<exists>p. roof_properties
           \<lparr>roof_identifier = ''S'', geometry_normal = Vector3D 0 (- 1) 0,
            geometry_centroid = Point3D 0 0 0, geometry_area = 1, user_roof_type = None\<rparr> = Inr p \<and>
        - 90 \<le> r_tilt p \<and> r_tilt p \<le> 90 \<and> 0 \<le> r_tilt p \<and>
        0 \<le> r_azimuth p \<and> r_azimuth p \<le> 360) \<and>
   (\<exists>r \<in> set (calculate_solar_potential
        [with_access \<lparr>r_id = ''A'', r_centroid = Point3D 0 0 0, r_normal = Vector3D 0 0 1,
                      r_area = 10, r_tilt = - 45, r_azimuth = 270, r_type = ''gable''\<rparr> 1 50 2]).
      0 \<le> suitability r \<and> suitability r \<le> 1)"
proof -
  define S where "S = \<lparr>roof_identifier = ''S'', geometry_normal = Vector3D 0 (- 1) 0,
        geometry_centroid = Point3D 0 0 0, geometry_area = 1, user_roof_type = None\<rparr>"
  define A where "A = with_access \<lparr>r_id = ''A'', r_centroid = Point3D 0 0 0,
      r_normal = Vector3D 0 0 1, r_area = 10, r_tilt = - 45, r_azimuth = 270,
      r_type = ''gable''\<rparr> 1 50 2"
  have m: "magnitude (geometry_normal S) = 1" by (simp add: S_def magnitude_def)
  then have b: "1 / 2 \<le> magnitude (geometry_normal S) \<and> magnitude (geometry_normal S) \<le> 2"
    by simp
  have z: "0 \<le> vz (geometry_normal S)" by (simp add: S_def)
  have ne: "calculate_solar_potential [A] \<noteq> []"
    by (simp add: calculate_solar_potential_def Let_def)
  then obtain r where mem: "r \<in> set (calculate_solar_potential [A])"
    by (cases "calculate_solar_potential [A]") auto
  note t = scorer_ranges [of S "[A]"]
  from t b z have 1: "\<exists>p. roof_properties S = Inr p \<and> - 90 \<le> r_tilt p \<and> r_tilt p \<le> 90 \<and>
       0 \<le> r_tilt p \<and> 0 \<le> r_azimuth p \<and> r_azimuth p \<le> 360"
    by blast
  from t mem have 2: "0 \<le> suitability r \<and> suitability r \<le> 1" by blast
  from m 1 2 mem show ?thesis unfolding S_def A_def by blast
qed

subsection \<open>No analysis hours\<close>


end
